theory Spec2Isabelle
  imports "HOL-Library.Log_Nat"
begin

section \<open>JavaScript numbers\<close>

text \<open>
  A value of TypeScript's type \<open>number\<close> is an IEEE 754 double: a finite value, an
  infinity or NaN. A finite double is held as the rational number it denotes (negative
  zero is identified with zero; the cart never divides by a number, which is the only
  way to tell them apart). Arithmetic computes the exact rational result and rounds it
  to the nearest double, ties to the even significand: 53 significant bits, exponents
  from -1022 (below which the spacing stays 2^(-1074)) to 1023, and an infinity from
  2^1024 on.
\<close>

datatype number = Finite rat | PosInf | NegInf | NaN

text \<open>The exponent of a positive rational \<open>x\<close>: the \<open>e\<close> with 2^e \<le> x < 2^(e+1).\<close>

definition floor_log2 :: "rat \<Rightarrow> int" where
  "floor_log2 x =
     (if 1 \<le> x then bitlen \<lfloor>x\<rfloor> - 1 else - bitlen (\<lceil>1 / x\<rceil> - 1))"

definition round_half_even :: "rat \<Rightarrow> int" where
  "round_half_even x =
     (let f = \<lfloor>x\<rfloor>; r = x - of_int f
      in if r < 1 / 2 then f else if 1 / 2 < r then f + 1 else if even f then f else f + 1)"

definition to_double :: "rat \<Rightarrow> number" where
  "to_double x =
     (if x = 0 then Finite 0
      else
        let a = \<bar>x\<bar>;
            e = max (floor_log2 a) (- 1022);
            ulp = 2 powi (e - 52);
            y = of_int (round_half_even (a / ulp)) * ulp
        in if 2 ^ 1024 \<le> y then (if 0 < x then PosInf else NegInf)
           else Finite (if 0 < x then y else - y))"


text \<open>The operators \<open>+\<close>, \<open>*\<close>, \<open><=\<close> and \<open><\<close> on numbers.\<close>

fun js_add :: "number \<Rightarrow> number \<Rightarrow> number" where
  "js_add NaN b = NaN"
| "js_add a NaN = NaN"
| "js_add (Finite a) (Finite b) = to_double (a + b)"
| "js_add PosInf NegInf = NaN"
| "js_add NegInf PosInf = NaN"
| "js_add PosInf b = PosInf"
| "js_add a PosInf = PosInf"
| "js_add NegInf b = NegInf"
| "js_add a NegInf = NegInf"

fun js_mul :: "number \<Rightarrow> number \<Rightarrow> number" where
  "js_mul NaN b = NaN"
| "js_mul a NaN = NaN"
| "js_mul (Finite a) (Finite b) = to_double (a * b)"
| "js_mul (Finite a) PosInf = (if a = 0 then NaN else if 0 < a then PosInf else NegInf)"
| "js_mul (Finite a) NegInf = (if a = 0 then NaN else if 0 < a then NegInf else PosInf)"
| "js_mul PosInf (Finite b) = (if b = 0 then NaN else if 0 < b then PosInf else NegInf)"
| "js_mul NegInf (Finite b) = (if b = 0 then NaN else if 0 < b then NegInf else PosInf)"
| "js_mul PosInf PosInf = PosInf"
| "js_mul PosInf NegInf = NegInf"
| "js_mul NegInf PosInf = NegInf"
| "js_mul NegInf NegInf = PosInf"

fun js_le :: "number \<Rightarrow> number \<Rightarrow> bool" where
  "js_le NaN b = False"
| "js_le a NaN = False"
| "js_le (Finite a) (Finite b) = (a \<le> b)"
| "js_le NegInf b = True"
| "js_le a PosInf = True"
| "js_le PosInf b = False"
| "js_le a NegInf = False"

fun js_lt :: "number \<Rightarrow> number \<Rightarrow> bool" where
  "js_lt NaN b = False"
| "js_lt a NaN = False"
| "js_lt (Finite a) (Finite b) = (a < b)"
| "js_lt PosInf b = False"
| "js_lt a NegInf = False"
| "js_lt NegInf b = True"
| "js_lt a PosInf = True"

instantiation number :: "{zero, one, plus, times, ord}"
begin

definition zero_number_def: "0 = Finite 0"

definition one_number_def: "1 = Finite 1"

definition plus_number_def: "a + b = js_add a b"

definition times_number_def: "a * b = js_mul a b"

definition less_eq_number_def: "a \<le> b = js_le a b"

definition less_number_def: "a < b = js_lt a b"

instance ..

end




section \<open>Cart store (hooks/useCart.ts)\<close>

text \<open>
  The cart hook keeps a list of cart items in component state. The operations are
  written once, over any type \<open>'n\<close> of numbers that has the operators they use, and are
  read at two types: at \<open>number\<close>, the doubles of the program, and at \<open>int\<close>, for
  properties in which no rounding and no non-integer value takes part. Optional fields
  (\<open>string | null\<close>) are \<open>string option\<close>. The field \<open>id\<close> is named \<open>item_id\<close>, since
  \<open>id\<close> is the identity function of HOL.
\<close>

record 'n CartItem =
  item_id :: string
  title :: string
  price :: 'n
  quantity :: 'n
  image_url :: "string option"
  venue :: "string option"
  schedule :: "string option"

text \<open>
  The argument \<open>event: any\<close> of \<open>addToCart\<close>: only the five fields that the function
  reads.
\<close>

record Event =
  event_id :: string
  event_title :: string
  event_image_url :: "string option"
  event_venue :: "string option"
  event_schedule :: "string option"

text \<open>
  \<open>addToCart\<close> passes an updater to \<open>setItems\<close>; the updater is the function from the
  previous item list to the next one. \<open>prevItems.find\<close> returns the first item with the
  event's id (an object, hence truthy) or \<open>undefined\<close>. The price parameter has the
  default 100 for a caller that omits it; the model takes the price as given.
\<close>

definition addToCart ::
  "Event \<Rightarrow> 'n \<Rightarrow> ('n::{plus,one}) CartItem list \<Rightarrow> 'n CartItem list" where
  "addToCart event p prevItems =
     (case find (\<lambda>item. item_id item = event_id event) prevItems of
        Some existingItem \<Rightarrow>
          map (\<lambda>item. if item_id item = event_id event
                       then item\<lparr>quantity := quantity item + 1\<rparr>
                       else item) prevItems
      | None \<Rightarrow>
          prevItems @
            [\<lparr>item_id = event_id event, title = event_title event, price = p,
              quantity = 1, image_url = event_image_url event,
              venue = event_venue event, schedule = event_schedule event\<rparr>])"

definition removeFromCart :: "string \<Rightarrow> 'n CartItem list \<Rightarrow> 'n CartItem list" where
  "removeFromCart i items = filter (\<lambda>item. item_id item \<noteq> i) items"

definition updateQuantity ::
  "string \<Rightarrow> 'n \<Rightarrow> ('n::{ord,zero}) CartItem list \<Rightarrow> 'n CartItem list" where
  "updateQuantity i n items =
     (if n \<le> 0 then removeFromCart i items
      else map (\<lambda>item. if item_id item = i then item\<lparr>quantity := n\<rparr> else item) items)"

definition clearCart :: "'n CartItem list \<Rightarrow> 'n CartItem list" where
  "clearCart items = []"



definition isInCart :: "string \<Rightarrow> 'n CartItem list \<Rightarrow> bool" where
  "isInCart i items = list_ex (\<lambda>item. item_id item = i) items"

text \<open>
  A call of the hook's interface, and the item list after a sequence of calls, each
  call seeing the list that the previous one left.
\<close>

datatype 'n cart_op =
    AddToCart Event 'n
  | RemoveFromCart string
  | UpdateQuantity string 'n
  | ClearCart

fun apply_op ::
  "'n cart_op \<Rightarrow> ('n::{plus,one,ord,zero}) CartItem list \<Rightarrow> 'n CartItem list" where
  "apply_op (AddToCart event p) items = addToCart event p items"
| "apply_op (RemoveFromCart i) items = removeFromCart i items"
| "apply_op (UpdateQuantity i n) items = updateQuantity i n items"
| "apply_op ClearCart items = clearCart items"






subsection \<open>Persistence of the cart in local storage\<close>

text \<open>
  The hook reads \<open>localStorage\<close> in the initialiser of its state and writes it in an
  effect that depends on \<open>items\<close>. What the browser provides is a parameter of the
  model: whether \<open>window\<close> is defined, \<open>JSON.stringify\<close>, \<open>JSON.parse\<close> (\<open>None\<close> when it
  throws, which the initialiser catches) and whether \<open>localStorage.setItem\<close> accepts a
  value (it throws when the quota is exceeded, which the effect catches and logs).
\<close>

record 'n platform =
  window_defined :: bool
  stringify :: "'n CartItem list \<Rightarrow> string"
  parse :: "string \<Rightarrow> 'n CartItem list option"
  setItem_ok :: "string \<Rightarrow> string \<Rightarrow> bool"

datatype storage_call = GetItem string | SetItem string string

fun is_GetItem :: "storage_call \<Rightarrow> bool" where
  "is_GetItem (GetItem k) = True"
| "is_GetItem (SetItem k v) = False"

text \<open>
  One mounted instance of the hook: its \<open>items\<close> state, the content of local storage,
  and the calls of \<open>localStorage\<close> made so far, oldest first.
\<close>

record 'n cart_hook =
  cart_items :: "'n CartItem list"
  localStorage :: "string \<Rightarrow> string option"
  calls :: "storage_call list"

text \<open>
  The initialiser of \<open>useState\<close>: \<open>savedCart ? JSON.parse(savedCart) : []\<close>, where a
  missing key (\<open>null\<close>) and the empty string are falsy.
\<close>

definition initial_items ::
  "'n platform \<Rightarrow> (string \<Rightarrow> string option) \<Rightarrow> 'n CartItem list" where
  "initial_items pf storage =
     (if window_defined pf then
        (case storage ''cart'' of
           None \<Rightarrow> []
         | Some savedCart \<Rightarrow>
             (if savedCart = [] then []
              else (case parse pf savedCart of
                      None \<Rightarrow> []
                    | Some parsed \<Rightarrow> parsed)))
      else [])"

text \<open>The body of the effect, run after a render in which \<open>items\<close> is a new array.\<close>

definition save_effect :: "'n platform \<Rightarrow> 'n cart_hook \<Rightarrow> 'n cart_hook" where
  "save_effect pf s =
     (if window_defined pf \<and> length (cart_items s) > 0 then
        (if setItem_ok pf ''cart'' (stringify pf (cart_items s))
         then s\<lparr>localStorage := (localStorage s)(''cart'' \<mapsto> stringify pf (cart_items s)),
                calls := calls s @ [SetItem ''cart'' (stringify pf (cart_items s))]\<rparr>
         else s\<lparr>calls := calls s @ [SetItem ''cart'' (stringify pf (cart_items s))]\<rparr>)
      else s)"

text \<open>Mounting: the initialiser runs, then the effect runs after the first render.\<close>

definition useCart_mount ::
  "'n platform \<Rightarrow> (string \<Rightarrow> string option) \<Rightarrow> 'n cart_hook" where
  "useCart_mount pf storage =
     save_effect pf
       \<lparr>cart_items = initial_items pf storage, localStorage = storage,
        calls = (if window_defined pf then [GetItem ''cart''] else [])\<rparr>"

text \<open>
  A mutation: each operation hands \<open>setItems\<close> a newly built array, so the component
  renders again with the new list and the effect runs.
\<close>

definition mutate ::
  "('n::{plus,one,ord,zero}) platform \<Rightarrow> 'n cart_op \<Rightarrow> 'n cart_hook \<Rightarrow> 'n cart_hook" where
  "mutate pf c s = save_effect pf (s\<lparr>cart_items := apply_op c (cart_items s)\<rparr>)"

fun run_session ::
  "('n::{plus,one,ord,zero}) platform \<Rightarrow> 'n cart_op list \<Rightarrow> 'n cart_hook \<Rightarrow> 'n cart_hook" where
  "run_session pf [] s = s"
| "run_session pf (c # cs) s = run_session pf cs (mutate pf c s)"


section \<open>Registration workflow (EventCard, EventDetailPage)\<close>

text \<open>
  The values of JavaScript that \<open>checkProfileComplete\<close> can return, with their
  truthiness: \<open>a && b\<close> is \<open>b\<close> when \<open>a\<close> is truthy and \<open>a\<close> otherwise.
\<close>

datatype js_value = JBool bool | JString string | JNull

fun truthy :: "js_value \<Rightarrow> bool" where
  "truthy (JBool b) = b"
| "truthy (JString s) = (s \<noteq> [])"
| "truthy JNull = False"

definition js_and :: "js_value \<Rightarrow> js_value \<Rightarrow> js_value" where
  "js_and a b = (if truthy a then b else a)"

fun js_of_field :: "string option \<Rightarrow> js_value" where
  "js_of_field None = JNull"
| "js_of_field (Some s) = JString s"

text \<open>The authenticated user (only \<open>user.id\<close> is read) and a row of \<open>profiles\<close>.\<close>

record User =
  user_id :: string

record Profile =
  name :: "string option"
  phone :: "string option"
  rollno :: "string option"
  branch :: "string option"

text \<open>
  The answer of the remote store to one awaited request: the promise rejects
  (\<open>Throws\<close>), or it resolves to an object with \<open>data\<close> and \<open>error\<close>.
\<close>

datatype 'a response = Throws | Response (data: "'a option") (error: "string option")

fun request_failed :: "'a response \<Rightarrow> bool" where
  "request_failed Throws = True"
| "request_failed (Response d e) = (e \<noteq> None)"

text \<open>Requests sent to the remote store: table, kind and filter or row.\<close>

datatype request =
    SelectProfile string
  | SelectRegistration string string
  | DeleteRegistration string string
  | InsertRegistration string string

record toast =
  toast_type :: string
  toast_title :: string
  toast_message :: string
  toast_duration :: "nat option"

text \<open>
  The state that the handlers read and write: the component's state variables, the
  notifications emitted, the lines written with \<open>console.error\<close>, the requests sent, and
  the rows (event id, user id) of the remote table \<open>registrations\<close>. The remote store is
  outside the repository; its contract is taken to be that a request answered without
  error has been applied (an insert adds the row, a delete removes every row matching
  the filter) and that a failed request changes nothing.
\<close>

record reg_state =
  isRegistered :: bool
  registering :: bool
  showPaymentQR :: bool
  paymentQR :: string
  toasts :: "toast list"
  console_errors :: "string list"
  requests :: "request list"
  registrations :: "(string \<times> string) list"

text \<open>
  Modelled from the spec: \<open>addToast\<close> of \<open>components/Toast\<close>, which is not among the
  sources; it surfaces one user-visible notification, here appended to the
  notifications emitted.
\<close>

definition addToast :: "toast \<Rightarrow> reg_state \<Rightarrow> reg_state" where
  "addToast t s = s\<lparr>toasts := toasts s @ [t]\<rparr>"

definition remote_delete :: "string \<Rightarrow> string \<Rightarrow> (string \<times> string) list \<Rightarrow> (string \<times> string) list" where
  "remote_delete eid uid rows = filter (\<lambda>row. \<not> (fst row = eid \<and> snd row = uid)) rows"

definition remote_insert :: "string \<Rightarrow> string \<Rightarrow> (string \<times> string) list \<Rightarrow> (string \<times> string) list" where
  "remote_insert eid uid rows = rows @ [(eid, uid)]"

definition row_present :: "string \<Rightarrow> string \<Rightarrow> reg_state \<Rightarrow> bool" where
  "row_present eid uid s = list_ex (\<lambda>row. fst row = eid \<and> snd row = uid) (registrations s)"

text \<open>
  \<open>checkProfileComplete\<close> (the same text in both components): returns the value and
  the state, in which the request for the profile row is recorded.
\<close>

definition checkProfileComplete ::
  "User option \<Rightarrow> Profile response \<Rightarrow> reg_state \<Rightarrow> js_value \<times> reg_state" where
  "checkProfileComplete user reply s =
     (case user of
        None \<Rightarrow> (JBool False, s)
      | Some u \<Rightarrow>
          (let s' = s\<lparr>requests := requests s @ [SelectProfile (user_id u)]\<rparr> in
           case reply of
             Throws \<Rightarrow> (JBool False, s')
           | Response d e \<Rightarrow>
               (case d of
                  None \<Rightarrow> (JBool False, s')
                | Some profile \<Rightarrow>
                    if e \<noteq> None then (JBool False, s')
                    else (js_and (js_and (js_and (js_of_field (name profile))
                                                (js_of_field (phone profile)))
                                        (js_of_field (rollno profile)))
                                (js_of_field (branch profile)), s'))))"

definition login_required_toast :: toast where
  "login_required_toast =
     \<lparr>toast_type = ''warning'', toast_title = ''Login Required'',
      toast_message = ''Please sign in before registering for events'',
      toast_duration = Some 4000\<rparr>"

definition profile_incomplete_toast :: toast where
  "profile_incomplete_toast =
     \<lparr>toast_type = ''warning'', toast_title = ''Profile Incomplete'',
      toast_message =
        ''Please complete your profile (Name, Phone, Roll No, Branch) before registering'',
      toast_duration = Some 5000\<rparr>"


text \<open>
  \<open>checkRegistration\<close> of the event card, run when the component mounts or the user
  changes (the page's version is the same after a guard on the route parameter): it asks for the id of the row and sets \<open>isRegistered\<close>
  to \<open>!!data\<close>; when the request fails it only logs, and the state keeps its value
  (initially \<open>false\<close>).
\<close>

definition checkRegistration ::
  "User option \<Rightarrow> string \<Rightarrow> string response \<Rightarrow> reg_state \<Rightarrow> reg_state" where
  "checkRegistration user eid reply s =
     (case user of
        None \<Rightarrow> s
      | Some u \<Rightarrow>
          (let s1 = s\<lparr>requests := requests s @ [SelectRegistration eid (user_id u)]\<rparr> in
           case reply of
             Throws \<Rightarrow>
               s1\<lparr>console_errors := console_errors s1 @ [''Error checking registration:'']\<rparr>
           | Response d e \<Rightarrow>
               if e \<noteq> None
               then s1\<lparr>console_errors :=
                        console_errors s1 @ [''Error checking registration:'']\<rparr>
               else s1\<lparr>isRegistered := (d \<noteq> None)\<rparr>))"

text \<open>
  How a \<open>try\<close> block ends: it ran to its end, or it threw (\<open>if (error) throw error\<close>,
  or the awaited promise rejected); either way with the state reached so far.
\<close>

datatype outcome = Completed reg_state | Thrown reg_state

subsection \<open>EventCard.handleRegister\<close>

text \<open>
  The \<open>try\<close> block of the card's handler: the branch is chosen by the component's
  \<open>isRegistered\<close> state, and the state is only set after the request has succeeded.
\<close>

definition card_try :: "Event \<Rightarrow> User \<Rightarrow> unit response \<Rightarrow> reg_state \<Rightarrow> outcome" where
  "card_try ev u reply s =
     (if isRegistered s then
        (let s1 = s\<lparr>requests := requests s @ [DeleteRegistration (event_id ev) (user_id u)]\<rparr> in
         if request_failed reply then Thrown s1
         else Completed
           (addToast
              \<lparr>toast_type = ''success'', toast_title = ''Unregistered'',
               toast_message = ''You have been unregistered from '' @ event_title ev,
               toast_duration = Some 3000\<rparr>
              (s1\<lparr>registrations := remote_delete (event_id ev) (user_id u) (registrations s1),
                  isRegistered := False\<rparr>)))
      else
        (let s1 = s\<lparr>requests := requests s @ [InsertRegistration (event_id ev) (user_id u)]\<rparr> in
         if request_failed reply then Thrown s1
         else Completed
           (addToast
              \<lparr>toast_type = ''success'', toast_title = ''Registration Successful!'',
               toast_message = ''You have been registered for '' @ event_title ev,
               toast_duration = Some 3000\<rparr>
              (s1\<lparr>registrations := remote_insert (event_id ev) (user_id u) (registrations s1),
                  isRegistered := True\<rparr>))))"

definition handleRegister_card ::
  "User option \<Rightarrow> Event \<Rightarrow> Profile response \<Rightarrow> unit response \<Rightarrow> reg_state \<Rightarrow> reg_state" where
  "handleRegister_card user ev profile_reply reply s =
     (case user of
        None \<Rightarrow> addToast login_required_toast s
      | Some u \<Rightarrow>
          (case checkProfileComplete user profile_reply s of
             (isProfileComplete, s1) \<Rightarrow>
               if \<not> truthy isProfileComplete then addToast profile_incomplete_toast s1
               else
                 (case card_try ev u reply (s1\<lparr>registering := True\<rparr>) of
                    Completed s2 \<Rightarrow> s2\<lparr>registering := False\<rparr>
                  | Thrown s2 \<Rightarrow>
                      (addToast
                         \<lparr>toast_type = ''error'', toast_title = ''Registration Failed'',
                          toast_message = ''Please try again later'',
                          toast_duration = Some 4000\<rparr>
                         (s2\<lparr>console_errors :=
                               console_errors s2 @ [''Error with registration:'']\<rparr>))
                        \<lparr>registering := False\<rparr>)))"

subsection \<open>EventDetailPage: handleRegister, generatePaymentQR, confirmPayment\<close>

text \<open>
  \<open>generatePaymentQR\<close> has its own \<open>try\<close> and \<open>catch\<close> and sends nothing to the remote
  store. \<open>QRCode.toDataURL\<close> is a parameter (\<open>None\<close> when it throws).
\<close>

definition generatePaymentQR ::
  "Event option \<Rightarrow> (string \<Rightarrow> string option) \<Rightarrow> reg_state \<Rightarrow> reg_state" where
  "generatePaymentQR event toDataURL s =
     (case event of
        None \<Rightarrow> s
      | Some ev \<Rightarrow>
          (let upiId = ''campusevents@upi'';
               amount = ''100'';
               upiUrl = ''upi://pay?pa='' @ upiId @ ''&pn=Campus Events&am='' @ amount
                        @ ''&cu=INR&tn=Payment for '' @ event_title ev
           in case toDataURL upiUrl of
                Some qrDataUrl \<Rightarrow> s\<lparr>paymentQR := qrDataUrl, showPaymentQR := True\<rparr>
              | None \<Rightarrow>
                  addToast
                    \<lparr>toast_type = ''error'', toast_title = ''Error'',
                     toast_message = ''Failed to generate payment QR code'',
                     toast_duration = None\<rparr>
                    (s\<lparr>console_errors := console_errors s @ [''Error generating QR code:'']\<rparr>)))"

text \<open>
  The \<open>try\<close> block of the page's handler. When the user is not registered it shows
  the payment QR and inserts nothing; the row is inserted by \<open>confirmPayment\<close>, the
  handler of the button "Payment Done" under the QR. The route parameter \<open>eventId\<close> is a
  string here (the button is rendered only once the event has been loaded by that id).
\<close>

definition detail_try ::
  "string \<Rightarrow> Event option \<Rightarrow> User \<Rightarrow> unit response \<Rightarrow> (string \<Rightarrow> string option) \<Rightarrow>
   reg_state \<Rightarrow> outcome" where
  "detail_try eventId event u reply toDataURL s =
     (if isRegistered s then
        (let s1 = s\<lparr>requests := requests s @ [DeleteRegistration eventId (user_id u)]\<rparr> in
         if request_failed reply then Thrown s1
         else Completed
           (addToast
              \<lparr>toast_type = ''success'', toast_title = ''Unregistered'',
               toast_message = ''You have been unregistered from this event'',
               toast_duration = None\<rparr>
              (s1\<lparr>registrations := remote_delete eventId (user_id u) (registrations s1),
                  isRegistered := False\<rparr>)))
      else Completed (generatePaymentQR event toDataURL s))"

definition handleRegister_detail ::
  "User option \<Rightarrow> string \<Rightarrow> Event option \<Rightarrow> Profile response \<Rightarrow> unit response \<Rightarrow>
   (string \<Rightarrow> string option) \<Rightarrow> reg_state \<Rightarrow> reg_state" where
  "handleRegister_detail user eventId event profile_reply reply toDataURL s =
     (case user of
        None \<Rightarrow> addToast login_required_toast s
      | Some u \<Rightarrow>
          (case checkProfileComplete user profile_reply s of
             (isProfileComplete, s1) \<Rightarrow>
               if \<not> truthy isProfileComplete then addToast profile_incomplete_toast s1
               else
                 (case detail_try eventId event u reply toDataURL (s1\<lparr>registering := True\<rparr>) of
                    Completed s2 \<Rightarrow> s2\<lparr>registering := False\<rparr>
                  | Thrown s2 \<Rightarrow>
                      (addToast
                         \<lparr>toast_type = ''error'', toast_title = ''Error'',
                          toast_message = ''Failed to process registration'',
                          toast_duration = None\<rparr>
                         (s2\<lparr>console_errors :=
                               console_errors s2 @ [''Error with registration:'']\<rparr>))
                        \<lparr>registering := False\<rparr>)))"

definition confirm_try :: "string \<Rightarrow> User \<Rightarrow> unit response \<Rightarrow> reg_state \<Rightarrow> outcome" where
  "confirm_try eid u reply s =
     (let s1 = s\<lparr>requests := requests s @ [InsertRegistration eid (user_id u)]\<rparr> in
      if request_failed reply then Thrown s1
      else Completed
        (addToast
           \<lparr>toast_type = ''success'', toast_title = ''Registration Successful!'',
            toast_message = ''You have been registered for this event'',
            toast_duration = None\<rparr>
           (s1\<lparr>registrations := remote_insert eid (user_id u) (registrations s1),
               isRegistered := True, showPaymentQR := False\<rparr>)))"

definition confirmPayment ::
  "User option \<Rightarrow> string option \<Rightarrow> unit response \<Rightarrow> reg_state \<Rightarrow> reg_state" where
  "confirmPayment user eventId reply s =
     (case user of
        None \<Rightarrow> s
      | Some u \<Rightarrow>
          (case eventId of
             None \<Rightarrow> s
           | Some eid \<Rightarrow>
               (case confirm_try eid u reply s of
                  Completed s2 \<Rightarrow> s2
                | Thrown s2 \<Rightarrow>
                    addToast
                      \<lparr>toast_type = ''error'', toast_title = ''Error'',
                       toast_message = ''Failed to confirm registration'',
                       toast_duration = None\<rparr>
                      (s2\<lparr>console_errors :=
                            console_errors s2 @ [''Error confirming registration:'']\<rparr>))))"

text \<open>
  The register operation of the event page as the user carries it out: a click on the
  register button (\<open>handleRegister\<close>) and, when the user was not registered and the
  payment QR is shown after it, a click on "Payment Done" under the QR
  (\<open>confirmPayment\<close>; the button is rendered only while \<open>showPaymentQR\<close> holds).
\<close>

definition page_register ::
  "User option \<Rightarrow> string \<Rightarrow> Event option \<Rightarrow> Profile response \<Rightarrow> unit response \<Rightarrow>
   (string \<Rightarrow> string option) \<Rightarrow> reg_state \<Rightarrow> reg_state" where
  "page_register user eventId event profile_reply reply toDataURL s =
     (let s1 = handleRegister_detail user eventId event profile_reply reply toDataURL s in
      if \<not> isRegistered s \<and> showPaymentQR s1
      then confirmPayment user (Some eventId) reply s1
      else s1)"

text \<open>
  The data model's notion of a complete profile, to compare the handlers' check with:
  each of the four fields is present and is not the empty string.
\<close>

fun nonempty_field :: "string option \<Rightarrow> bool" where
  "nonempty_field None = False"
| "nonempty_field (Some v) = (v \<noteq> [])"

definition profile_complete :: "Profile \<Rightarrow> bool" where
  "profile_complete p =
     (nonempty_field (name p) \<and> nonempty_field (phone p) \<and>
      nonempty_field (rollno p) \<and> nonempty_field (branch p))"

text \<open>
  The profile row exists and is complete: the request was answered with a row and
  without an error.
\<close>

fun complete_row :: "Profile response \<Rightarrow> bool" where
  "complete_row Throws = False"
| "complete_row (Response None e) = False"
| "complete_row (Response (Some p) e) = (e = None \<and> profile_complete p)"


section \<open>Properties of JavaScript numbers\<close>

lemma round_half_even_of_int [simp]: "round_half_even (of_int k) = k"
  by (simp add: round_half_even_def)



lemma floor_log2_bounds:
  assumes "1 \<le> x"
  shows "0 \<le> floor_log2 x" and "2 powi floor_log2 x \<le> x" and "x < 2 powi (floor_log2 x + 1)"
proof -
  let ?n = "\<lfloor>x\<rfloor>"
  have n: "0 < ?n" using assms by simp
  note b = bitlen_bounds [OF n]
  have len: "1 \<le> bitlen ?n"
    using n bitlen_eq_zero_iff [of ?n] bitlen_nonneg [of ?n] by linarith
  have fl: "floor_log2 x = bitlen ?n - 1" using assms by (simp add: floor_log2_def)
  show "0 \<le> floor_log2 x" using len fl by simp
  have "(2::rat) powi (bitlen ?n - 1) = of_int (2 ^ nat (bitlen ?n - 1))"
    using len by (simp add: power_int_def)
  also have "\<dots> \<le> of_int ?n" using b by (simp only: of_int_le_iff)
  also have "\<dots> \<le> x" by simp
  finally show "2 powi floor_log2 x \<le> x" by (simp add: fl)
  have "?n + 1 \<le> 2 ^ nat (bitlen ?n)" using b by simp
  then have "(of_int (?n + 1) :: rat) \<le> of_int (2 ^ nat (bitlen ?n))"
    by (simp only: of_int_le_iff)
  moreover have "x < of_int (?n + 1)" by simp linarith
  ultimately have "x < of_int (2 ^ nat (bitlen ?n))" by linarith
  also have "\<dots> = 2 powi (bitlen ?n)" using len by (simp add: power_int_def)
  finally show "x < 2 powi (floor_log2 x + 1)" by (simp add: fl)
qed



lemma two_powi_pos [simp]: "0 < (2::rat) powi k"
  by (simp add: power_int_def)

lemma two_powi_nonpos: "k \<le> 0 \<Longrightarrow> (2::rat) powi k = 1 / 2 ^ nat (- k)"
  by (cases "k = 0") (simp_all add: power_int_def field_simps)




lemma to_double_exact:
  assumes "1 \<le> \<bar>x\<bar>" and "\<bar>x\<bar> / 2 powi (floor_log2 \<bar>x\<bar> - 52) = of_int k"
      and "\<bar>x\<bar> < 2 ^ 1024"
  shows "to_double x = Finite x"
proof -
  let ?u = "(2::rat) powi (floor_log2 \<bar>x\<bar> - 52)"
  have "0 \<le> floor_log2 \<bar>x\<bar>" by (rule floor_log2_bounds [OF assms(1)])
  then have e: "max (floor_log2 \<bar>x\<bar>) (- 1022) = floor_log2 \<bar>x\<bar>" by simp
  have u: "?u \<noteq> 0" by simp
  have y: "of_int k * ?u = \<bar>x\<bar>" using assms(2) u by (simp add: field_simps)
  have nz: "x \<noteq> 0" using assms(1) by auto
  have "to_double x =
      (if 2 ^ 1024 \<le> \<bar>x\<bar> then (if 0 < x then PosInf else NegInf)
       else Finite (if 0 < x then \<bar>x\<bar> else - \<bar>x\<bar>))"
    unfolding to_double_def Let_def e assms(2) round_half_even_of_int y using nz by simp
  also have "\<dots> = Finite x"
    using assms(3) by simp
  finally show ?thesis .
qed

lemma to_double_of_int:
  assumes "\<bar>z\<bar> \<le> 2 ^ 53"
  shows "to_double (of_int z) = Finite (of_int z)"
proof (cases "z = 0")
  case True
  then show ?thesis by (simp add: to_double_def)
next
  case False
  define a :: rat where "a = of_int \<bar>z\<bar>"
  define e where "e = floor_log2 a"
  have abs: "\<bar>of_int z :: rat\<bar> = a" by (simp add: a_def)
  have "1 \<le> \<bar>z\<bar>" using False by simp
  then have "(of_int 1 :: rat) \<le> of_int \<bar>z\<bar>" by (simp only: of_int_le_iff)
  then have one: "1 \<le> a" by (simp add: a_def)
  have "(of_int \<bar>z\<bar> :: rat) \<le> of_int (2 ^ 53)" using assms by (simp only: of_int_le_iff)
  then have le: "a \<le> 2 ^ 53" by (simp add: a_def)
  note b = floor_log2_bounds [OF one, folded e_def]
  have e53: "e \<le> 53"
  proof (rule ccontr)
    assume "\<not> e \<le> 53"
    then have "(2::rat) powi 54 \<le> 2 powi e" by (intro power_int_increasing) simp_all
    also have "\<dots> \<le> a" by (rule b(2))
    finally have "(2::rat) ^ 54 \<le> a" by simp
    with le show False by simp
  qed
  have "\<exists>k. a / 2 powi (e - 52) = of_int k"
  proof (cases "e \<le> 52")
    case True
    then have "(2::rat) powi (e - 52) = 1 / 2 ^ nat (52 - e)"
      using two_powi_nonpos [of "e - 52"] by simp
    then have "a / 2 powi (e - 52) = of_int (\<bar>z\<bar> * 2 ^ nat (52 - e))"
      by (simp add: a_def)
    then show ?thesis by blast
  next
    case False
    with e53 have e: "e = 53" by simp
    from b(2) have "2 ^ 53 \<le> a" by (simp add: e)
    with le have "a = 2 ^ 53" by simp
    then have "a / 2 powi (e - 52) = of_int (2 ^ 52)" by (simp add: e)
    then show ?thesis by blast
  qed
  then obtain k where k: "a / 2 powi (e - 52) = of_int k" by blast
  have "(2::rat) ^ 53 < 2 ^ 1024" by (intro power_strict_increasing) simp_all
  with le have big: "a < 2 ^ 1024" by (rule le_less_trans)
  show ?thesis
    by (rule to_double_exact [of "of_int z" k])
       (simp_all only: abs one k [unfolded e_def] big)
qed




section \<open>Properties of the cart store\<close>

subsection \<open>Auxiliary facts\<close>

lemma find_None_isInCart:
  "find (\<lambda>item. item_id item = i) items = None \<longleftrightarrow> \<not> isInCart i items"
  by (auto simp add: isInCart_def find_None_iff list_ex_iff)

lemma addToCart_present:
  assumes "isInCart (event_id e) items"
  shows "addToCart e p items =
           map (\<lambda>item. if item_id item = event_id e
                        then item\<lparr>quantity := quantity item + 1\<rparr> else item) items"
proof -
  from assms obtain x where "find (\<lambda>item. item_id item = event_id e) items = Some x"
    using find_None_isInCart [of "event_id e" items] by (cases "find (\<lambda>item. item_id item = event_id e) items") auto
  then show ?thesis by (simp add: addToCart_def)
qed

lemma addToCart_absent:
  assumes "\<not> isInCart (event_id e) items"
  shows "addToCart e p items =
           items @ [\<lparr>item_id = event_id e, title = event_title e, price = p,
                     quantity = 1, image_url = event_image_url e,
                     venue = event_venue e, schedule = event_schedule e\<rparr>]"
  using assms find_None_isInCart [of "event_id e" items] by (simp add: addToCart_def)

lemma removeFromCart_not_isInCart: "\<not> isInCart i (removeFromCart i items)"
  by (simp add: isInCart_def removeFromCart_def list_ex_iff)


subsection \<open>Adding to the cart\<close>




subsection \<open>Derived totals\<close>














subsection \<open>Changing a quantity\<close>



subsection \<open>The quantity invariant\<close>

















subsection \<open>What adding to the cart leaves alone\<close>

text \<open>
  C10. When the cart already holds an item with id \<open>e.id\<close>, \<open>addToCart(e, p')\<close> leaves
  the unit price of every item as it was, whatever \<open>p'\<close> is (the price argument is only
  used for a newly inserted item); ids and titles stay as they were too, and every
  item with another id is unchanged in all its fields.
\<close>

theorem addToCart_existing_keeps_price:
  assumes "isInCart (event_id e) items"
  shows "length (addToCart e p' items) = length items
     \<and> map price (addToCart e p' items) = map price items
     \<and> map item_id (addToCart e p' items) = map item_id items
     \<and> map title (addToCart e p' items) = map title items
     \<and> (\<forall>k < length items.
           item_id (items ! k) \<noteq> event_id e \<longrightarrow> addToCart e p' items ! k = items ! k)"
proof -
  have "map price (addToCart e p' items) = map price items"
    by (simp add: addToCart_present [OF assms] comp_def if_distrib [of price] cong: if_cong)
  moreover have "map item_id (addToCart e p' items) = map item_id items"
    by (simp add: addToCart_present [OF assms] comp_def if_distrib [of item_id] cong: if_cong)
  moreover have "map title (addToCart e p' items) = map title items"
    by (simp add: addToCart_present [OF assms] comp_def if_distrib [of title] cong: if_cong)
  moreover have "\<forall>k < length items.
           item_id (items ! k) \<noteq> event_id e \<longrightarrow> addToCart e p' items ! k = items ! k"
    by (simp add: addToCart_present [OF assms])
  moreover have "length (addToCart e p' items) = length items"
    by (simp add: addToCart_present [OF assms])
  ultimately show ?thesis by simp
qed

theorem addToCart_existing_keeps_price_witness:
  "isInCart ''A''
     [\<lparr>item_id = ''A'', title = ''CTF'', price = (100::int), quantity = 1,
        image_url = None, venue = None, schedule = None\<rparr>,
      \<lparr>item_id = ''B'', title = ''Quiz'', price = (50::int), quantity = 2,
        image_url = None, venue = None, schedule = None\<rparr>]
   \<and> map price
       (addToCart \<lparr>event_id = ''A'', event_title = ''Capture'', event_image_url = None,
                    event_venue = None, event_schedule = None\<rparr> 999
          [\<lparr>item_id = ''A'', title = ''CTF'', price = (100::int), quantity = 1,
             image_url = None, venue = None, schedule = None\<rparr>,
           \<lparr>item_id = ''B'', title = ''Quiz'', price = (50::int), quantity = 2,
             image_url = None, venue = None, schedule = None\<rparr>]) = [100, 50]
   \<and> addToCart \<lparr>event_id = ''A'', event_title = ''Capture'', event_image_url = None,
                 event_venue = None, event_schedule = None\<rparr> 999
          [\<lparr>item_id = ''A'', title = ''CTF'', price = (100::int), quantity = 1,
             image_url = None, venue = None, schedule = None\<rparr>,
           \<lparr>item_id = ''B'', title = ''Quiz'', price = (50::int), quantity = 2,
             image_url = None, venue = None, schedule = None\<rparr>] ! 1
       = \<lparr>item_id = ''B'', title = ''Quiz'', price = (50::int), quantity = 2,
           image_url = None, venue = None, schedule = None\<rparr>"
proof -
  let ?e = "\<lparr>event_id = ''A'', event_title = ''Capture'', event_image_url = None,
             event_venue = None, event_schedule = None\<rparr>"
  let ?a = "\<lparr>item_id = ''A'', title = ''CTF'', price = (100::int), quantity = 1,
             image_url = None, venue = None, schedule = None\<rparr>"
  let ?b = "\<lparr>item_id = ''B'', title = ''Quiz'', price = (50::int), quantity = 2,
             image_url = None, venue = None, schedule = None\<rparr>"
  have present: "isInCart (event_id ?e) [?a, ?b]"
    by (simp add: isInCart_def)
  note kept = addToCart_existing_keeps_price [OF present, of 999]
  have "map price (addToCart ?e 999 [?a, ?b]) = [100, 50]"
    using kept [THEN conjunct2, THEN conjunct1] by simp
  moreover have "addToCart ?e 999 [?a, ?b] ! 1 = ?b"
    using kept [THEN conjunct2, THEN conjunct2, THEN conjunct2, THEN conjunct2,
                THEN spec, of 1] by simp
  ultimately show ?thesis using present by simp
qed

subsection \<open>Adding and updating at the numbers of the program\<close>

text \<open>
  The properties of \<open>addToCart\<close> and \<open>updateQuantity\<close> above are stated at exact
  integers. They hold in the same words at the doubles: the quantity of the second
  call is the double 1 + 1 = 2, and a number that is at least 1 is not at most 0.
\<close>

lemma one_plus_one_number: "(1::number) + 1 = Finite 2"
  using to_double_of_int [of 2] by (simp add: plus_number_def one_number_def)

lemma addToCart_twice:
  assumes "\<not> isInCart (event_id e) items"
  shows "addToCart e p' (addToCart e p items) =
           items @ [\<lparr>item_id = event_id e, title = event_title e, price = p,
                     quantity = 1 + 1, image_url = event_image_url e,
                     venue = event_venue e, schedule = event_schedule e\<rparr>]"
proof -
  let ?new = "\<lparr>item_id = event_id e, title = event_title e, price = p,
                 quantity = 1, image_url = event_image_url e,
                 venue = event_venue e, schedule = event_schedule e\<rparr>"
  have others: "\<forall>item \<in> set items. item_id item \<noteq> event_id e"
    using assms by (simp add: isInCart_def list_ex_iff)
  have now_present: "isInCart (event_id e) (items @ [?new])"
    by (simp add: isInCart_def)
  have keep: "map (\<lambda>item. if item_id item = event_id e
                            then item\<lparr>quantity := quantity item + 1\<rparr> else item) items = items"
    using others by (simp add: map_idI)
  show ?thesis
    by (simp add: addToCart_absent [OF assms] addToCart_present [OF now_present] keep)
qed

lemma addToCart_number:
  fixes items :: "number CartItem list"
  shows "(isInCart (event_id e) items \<longrightarrow>
      length (addToCart e p items) = length items \<and>
      (\<forall>k < length items.
         addToCart e p items ! k =
           (if item_id (items ! k) = event_id e
            then (items ! k)\<lparr>quantity := quantity (items ! k) + 1\<rparr>
            else items ! k)))
   \<and> (\<not> isInCart (event_id e) items \<longrightarrow>
      addToCart e p items =
        items @ [\<lparr>item_id = event_id e, title = event_title e, price = p,
                  quantity = Finite 1, image_url = event_image_url e,
                  venue = event_venue e, schedule = event_schedule e\<rparr>] \<and>
      addToCart e p' (addToCart e p items) =
        items @ [\<lparr>item_id = event_id e, title = event_title e, price = p,
                  quantity = Finite 2, image_url = event_image_url e,
                  venue = event_venue e, schedule = event_schedule e\<rparr>])"
proof (intro conjI impI)
  assume present: "isInCart (event_id e) items"
  show "length (addToCart e p items) = length items"
    by (simp add: addToCart_present [OF present])
  show "\<forall>k < length items.
         addToCart e p items ! k =
           (if item_id (items ! k) = event_id e
            then (items ! k)\<lparr>quantity := quantity (items ! k) + 1\<rparr>
            else items ! k)"
    by (simp add: addToCart_present [OF present])
next
  assume absent: "\<not> isInCart (event_id e) items"
  show "addToCart e p items =
        items @ [\<lparr>item_id = event_id e, title = event_title e, price = p,
                  quantity = Finite 1, image_url = event_image_url e,
                  venue = event_venue e, schedule = event_schedule e\<rparr>]"
    by (simp add: addToCart_absent [OF absent] one_number_def)
  show "addToCart e p' (addToCart e p items) =
        items @ [\<lparr>item_id = event_id e, title = event_title e, price = p,
                  quantity = Finite 2, image_url = event_image_url e,
                  venue = event_venue e, schedule = event_schedule e\<rparr>]"
    by (simp only: addToCart_twice [OF absent] one_plus_one_number)
qed

lemma at_least_one_not_at_most_zero: "(1::number) \<le> n \<Longrightarrow> \<not> n \<le> 0"
  by (cases n) (simp_all add: less_eq_number_def one_number_def zero_number_def)

lemma updateQuantity_number:
  fixes n :: number
  shows "(1 \<le> n \<longrightarrow>
      length (updateQuantity i n items) = length items \<and>
      (\<forall>k < length items.
         updateQuantity i n items ! k =
           (if item_id (items ! k) = i then (items ! k)\<lparr>quantity := n\<rparr> else items ! k)))
   \<and> (n \<le> 0 \<longrightarrow> updateQuantity i n items = removeFromCart i items)
   \<and> \<not> isInCart i (updateQuantity i (Finite 0) items)
   \<and> filter (\<lambda>item. item_id item \<noteq> i) (updateQuantity i (Finite 0) items) =
       filter (\<lambda>item. item_id item \<noteq> i) items"
proof (intro conjI impI)
  assume "1 \<le> n"
  then have "\<not> n \<le> 0" by (rule at_least_one_not_at_most_zero)
  then have upd: "updateQuantity i n items =
      map (\<lambda>item. if item_id item = i then item\<lparr>quantity := n\<rparr> else item) items"
    by (simp add: updateQuantity_def)
  show "length (updateQuantity i n items) = length items"
    by (simp add: upd)
  show "\<forall>k < length items.
         updateQuantity i n items ! k =
           (if item_id (items ! k) = i then (items ! k)\<lparr>quantity := n\<rparr> else items ! k)"
    by (simp add: upd)
next
  assume "n \<le> 0"
  then show "updateQuantity i n items = removeFromCart i items"
    by (simp add: updateQuantity_def)
next
  have zero: "Finite 0 \<le> (0::number)"
    by (simp add: less_eq_number_def zero_number_def)
  show "\<not> isInCart i (updateQuantity i (Finite 0) items)"
    by (simp add: updateQuantity_def zero removeFromCart_not_isInCart)
  show "filter (\<lambda>item. item_id item \<noteq> i) (updateQuantity i (Finite 0) items) =
        filter (\<lambda>item. item_id item \<noteq> i) items"
    by (simp add: updateQuantity_def zero removeFromCart_def)
qed


subsection \<open>Persistence of the cart\<close>

lemma save_effect_items: "cart_items (save_effect pf s) = cart_items s"
  by (simp add: save_effect_def)

lemma save_effect_reads:
  "filter is_GetItem (calls (save_effect pf s)) = filter is_GetItem (calls s)"
  by (simp add: save_effect_def)

lemma mutate_reads: "filter is_GetItem (calls (mutate pf c s)) = filter is_GetItem (calls s)"
  by (simp add: mutate_def save_effect_reads)

lemma run_session_reads:
  "filter is_GetItem (calls (run_session pf cs s)) = filter is_GetItem (calls s)"
  by (induction cs arbitrary: s) (simp_all add: mutate_reads)

lemma mutate_nonempty:
  assumes "window_defined pf" and "apply_op c (cart_items s) \<noteq> []"
  shows "calls (mutate pf c s) =
           calls s @ [SetItem ''cart'' (stringify pf (apply_op c (cart_items s)))]"
    and "setItem_ok pf ''cart'' (stringify pf (apply_op c (cart_items s))) \<Longrightarrow>
           localStorage (mutate pf c s) ''cart'' =
             Some (stringify pf (apply_op c (cart_items s)))"
  using assms by (simp_all add: mutate_def save_effect_def)

lemma mutate_empty:
  assumes "apply_op c (cart_items s) = []"
  shows "calls (mutate pf c s) = calls s" and "localStorage (mutate pf c s) = localStorage s"
  using assms by (simp_all add: mutate_def save_effect_def)

text \<open>
  C5. In the browser (\<open>window\<close> defined), a cart mutation whose resulting item list is
  not empty calls \<open>localStorage.setItem\<close> once with the key \<open>cart\<close> and the serialized
  new list, after which (the store accepting the value) the key \<open>cart\<close> holds that
  serialization. A mutation whose result is the empty list, \<open>clearCart\<close> among them,
  makes no call and leaves local storage as it was, so an earlier snapshot stays under
  \<open>cart\<close>. Mounting the hook seeds the items from the snapshot (the parsed value of
  the key \<open>cart\<close>, the empty list when the key is absent), and in a whole session of
  the hook, mount and any sequence of mutations, \<open>localStorage.getItem\<close> is called
  exactly once.
\<close>

theorem cart_persistence:
  assumes win: "window_defined pf"
  shows "cart_items (mutate pf c s) = apply_op c (cart_items s)
     \<and> (apply_op c (cart_items s) \<noteq> [] \<longrightarrow>
          calls (mutate pf c s) =
            calls s @ [SetItem ''cart'' (stringify pf (apply_op c (cart_items s)))]
          \<and> (setItem_ok pf ''cart'' (stringify pf (apply_op c (cart_items s))) \<longrightarrow>
               localStorage (mutate pf c s) ''cart'' =
                 Some (stringify pf (apply_op c (cart_items s)))))
     \<and> (apply_op c (cart_items s) = [] \<longrightarrow>
          calls (mutate pf c s) = calls s \<and> localStorage (mutate pf c s) = localStorage s)
     \<and> cart_items (mutate pf ClearCart s) = []
     \<and> calls (mutate pf ClearCart s) = calls s
     \<and> localStorage (mutate pf ClearCart s) = localStorage s
     \<and> cart_items (useCart_mount pf storage) = initial_items pf storage
     \<and> (storage ''cart'' = None \<longrightarrow> cart_items (useCart_mount pf storage) = [])
     \<and> (storage ''cart'' = Some saved \<and> saved \<noteq> [] \<and> parse pf saved = Some parsed \<longrightarrow>
          cart_items (useCart_mount pf storage) = parsed)
     \<and> length (filter is_GetItem (calls (useCart_mount pf storage))) = 1
     \<and> length (filter is_GetItem (calls (run_session pf cs (useCart_mount pf storage)))) = 1"
proof -
  have items: "cart_items (mutate pf c s) = apply_op c (cart_items s)" for c
    by (simp add: mutate_def save_effect_items)
  have cleared: "apply_op ClearCart (cart_items s) = []"
    by (simp add: clearCart_def)
  have seeded: "cart_items (useCart_mount pf storage) = initial_items pf storage"
    by (simp add: useCart_mount_def save_effect_items)
  have missing: "cart_items (useCart_mount pf storage) = []" if "storage ''cart'' = None"
    using that win by (simp add: seeded initial_items_def)
  have parsed: "cart_items (useCart_mount pf storage) = parsed"
    if "storage ''cart'' = Some saved \<and> saved \<noteq> [] \<and> parse pf saved = Some parsed"
    using that win by (simp add: seeded initial_items_def)
  have once: "length (filter is_GetItem (calls (useCart_mount pf storage))) = 1"
    using win by (simp add: useCart_mount_def save_effect_reads)
  have session:
    "length (filter is_GetItem (calls (run_session pf cs (useCart_mount pf storage)))) = 1"
    using once by (simp add: run_session_reads)
  show ?thesis
    using mutate_nonempty [OF win, of c s] mutate_empty [of c s]
      mutate_empty [OF cleared, of pf] missing parsed once session
    by (simp add: items clearCart_def seeded)
qed


theorem cart_persistence_witness:
  "cart_items
     (useCart_mount
        \<lparr>window_defined = True, stringify = (\<lambda>xs. concat (map item_id xs)),
          parse = (\<lambda>t. if t = ''A''
                         then Some [\<lparr>item_id = ''A'', title = ''CTF'', price = (100::int),
                                     quantity = 1, image_url = None, venue = None,
                                     schedule = None\<rparr>]
                         else None),
          setItem_ok = (\<lambda>k v. True)\<rparr>
        [''cart'' \<mapsto> ''A''])
     = [\<lparr>item_id = ''A'', title = ''CTF'', price = (100::int), quantity = 1,
          image_url = None, venue = None, schedule = None\<rparr>]
   \<and> localStorage
     (mutate
        \<lparr>window_defined = True, stringify = (\<lambda>xs. concat (map item_id xs)),
          parse = (\<lambda>t. if t = ''A''
                         then Some [\<lparr>item_id = ''A'', title = ''CTF'', price = (100::int),
                                     quantity = 1, image_url = None, venue = None,
                                     schedule = None\<rparr>]
                         else None),
          setItem_ok = (\<lambda>k v. True)\<rparr>
        ClearCart
        \<lparr>cart_items = [\<lparr>item_id = ''A'', title = ''CTF'', price = (100::int), quantity = 1,
                         image_url = None, venue = None, schedule = None\<rparr>],
          localStorage = [''cart'' \<mapsto> ''A''],
          calls = [GetItem ''cart'', SetItem ''cart'' ''A'']\<rparr>) ''cart''
     = Some ''A''
   \<and> calls
     (mutate
        \<lparr>window_defined = True, stringify = (\<lambda>xs. concat (map item_id xs)),
          parse = (\<lambda>t. if t = ''A''
                         then Some [\<lparr>item_id = ''A'', title = ''CTF'', price = (100::int),
                                     quantity = 1, image_url = None, venue = None,
                                     schedule = None\<rparr>]
                         else None),
          setItem_ok = (\<lambda>k v. True)\<rparr>
        (AddToCart \<lparr>event_id = ''B'', event_title = ''Quiz'', event_image_url = None,
                     event_venue = None, event_schedule = None\<rparr> 50)
        \<lparr>cart_items = [\<lparr>item_id = ''A'', title = ''CTF'', price = (100::int), quantity = 1,
                         image_url = None, venue = None, schedule = None\<rparr>],
          localStorage = [''cart'' \<mapsto> ''A''],
          calls = [GetItem ''cart'', SetItem ''cart'' ''A'']\<rparr>)
     = [GetItem ''cart'', SetItem ''cart'' ''A'', SetItem ''cart'' ''AB'']"
proof -
  let ?a = "\<lparr>item_id = ''A'', title = ''CTF'', price = (100::int), quantity = 1,
             image_url = None, venue = None, schedule = None\<rparr>"
  let ?pf = "\<lparr>window_defined = True, stringify = (\<lambda>xs. concat (map item_id xs)),
              parse = (\<lambda>t. if t = ''A'' then Some [?a] else None),
              setItem_ok = (\<lambda>k v. True)\<rparr>"
  let ?eb = "\<lparr>event_id = ''B'', event_title = ''Quiz'', event_image_url = None,
              event_venue = None, event_schedule = None\<rparr>"
  let ?s = "\<lparr>cart_items = [?a], localStorage = [''cart'' \<mapsto> ''A''],
             calls = [GetItem ''cart'', SetItem ''cart'' ''A'']\<rparr>"
  have win: "window_defined ?pf"
    by simp
  have saved: "[''cart'' \<mapsto> ''A''] ''cart'' = Some ''A'' \<and> ''A'' \<noteq> [] \<and>
      parse ?pf ''A'' = Some [?a]"
    by simp
  have added: "apply_op (AddToCart ?eb 50) (cart_items ?s) \<noteq> []"
    by (simp add: addToCart_def)
  note seeded =
    cart_persistence [OF win, where storage = "[''cart'' \<mapsto> ''A'']" and saved = "''A''"
      and parsed = "[?a]", THEN conjunct2, THEN conjunct2, THEN conjunct2, THEN conjunct2,
      THEN conjunct2, THEN conjunct2, THEN conjunct2, THEN conjunct2, THEN conjunct1,
      THEN mp, OF saved]
  note cleared =
    cart_persistence [OF win, where s = ?s, THEN conjunct2, THEN conjunct2, THEN conjunct2,
      THEN conjunct2, THEN conjunct2, THEN conjunct1]
  note written =
    cart_persistence [OF win, where s = ?s and c = "AddToCart ?eb 50", THEN conjunct2,
      THEN conjunct1, THEN mp, OF added, THEN conjunct1]
  have "cart_items (useCart_mount ?pf [''cart'' \<mapsto> ''A'']) = [?a]"
    by (rule seeded)
  moreover have "localStorage (mutate ?pf ClearCart ?s) ''cart'' = Some ''A''"
    by (simp add: cleared)
  moreover have "calls (mutate ?pf (AddToCart ?eb 50) ?s) =
      [GetItem ''cart'', SetItem ''cart'' ''A'', SetItem ''cart'' ''AB'']"
    by (simp add: written addToCart_def)
  ultimately show ?thesis by simp
qed


section \<open>Properties of the registration workflow\<close>

subsection \<open>Auxiliary facts\<close>

lemma truthy_js_and: "truthy (js_and a b) \<longleftrightarrow> truthy a \<and> truthy b"
  by (simp add: js_and_def)

lemma truthy_js_of_field: "truthy (js_of_field f) = nonempty_field f"
  by (cases f) simp_all

lemma checkProfileComplete_truthy:
  "truthy (fst (checkProfileComplete user reply s)) \<longleftrightarrow> user \<noteq> None \<and> complete_row reply"
proof (cases user)
  case None
  then show ?thesis by (simp add: checkProfileComplete_def)
next
  case (Some u)
  show ?thesis
  proof (cases reply)
    case Throws
    with Some show ?thesis by (simp add: checkProfileComplete_def)
  next
    case (Response d e)
    with Some show ?thesis
      by (cases d; cases e)
         (simp_all add: checkProfileComplete_def Let_def truthy_js_and truthy_js_of_field
            profile_complete_def)
  qed
qed

lemma checkProfileComplete_state:
  "snd (checkProfileComplete (Some u) reply s) =
     s\<lparr>requests := requests s @ [SelectProfile (user_id u)]\<rparr>"
  by (cases reply) (auto simp add: checkProfileComplete_def Let_def split: option.splits)

lemma handleRegister_card_incomplete:
  assumes "\<not> complete_row profile_reply"
  shows "handleRegister_card (Some u) ev profile_reply reply s =
           s\<lparr>requests := requests s @ [SelectProfile (user_id u)],
              toasts := toasts s @ [profile_incomplete_toast]\<rparr>"
proof -
  obtain v s1 where c: "checkProfileComplete (Some u) profile_reply s = (v, s1)"
    by (cases "checkProfileComplete (Some u) profile_reply s")
  have "\<not> truthy v"
    using checkProfileComplete_truthy [of "Some u" profile_reply s] assms c by simp
  moreover have "s1 = s\<lparr>requests := requests s @ [SelectProfile (user_id u)]\<rparr>"
    using checkProfileComplete_state [of u profile_reply s] c by simp
  ultimately show ?thesis
    by (simp add: handleRegister_card_def c addToast_def)
qed

lemma handleRegister_detail_incomplete:
  assumes "\<not> complete_row profile_reply"
  shows "handleRegister_detail (Some u) eid event profile_reply reply q s =
           s\<lparr>requests := requests s @ [SelectProfile (user_id u)],
              toasts := toasts s @ [profile_incomplete_toast]\<rparr>"
proof -
  obtain v s1 where c: "checkProfileComplete (Some u) profile_reply s = (v, s1)"
    by (cases "checkProfileComplete (Some u) profile_reply s")
  have "\<not> truthy v"
    using checkProfileComplete_truthy [of "Some u" profile_reply s] assms c by simp
  moreover have "s1 = s\<lparr>requests := requests s @ [SelectProfile (user_id u)]\<rparr>"
    using checkProfileComplete_state [of u profile_reply s] c by simp
  ultimately show ?thesis
    by (simp add: handleRegister_detail_def c addToast_def)
qed

lemma handleRegister_card_complete:
  assumes "complete_row profile_reply"
  shows "handleRegister_card (Some u) ev profile_reply reply s =
     (case card_try ev u reply
             (s\<lparr>requests := requests s @ [SelectProfile (user_id u)], registering := True\<rparr>) of
        Completed s2 \<Rightarrow> s2\<lparr>registering := False\<rparr>
      | Thrown s2 \<Rightarrow>
          (addToast
             \<lparr>toast_type = ''error'', toast_title = ''Registration Failed'',
              toast_message = ''Please try again later'', toast_duration = Some 4000\<rparr>
             (s2\<lparr>console_errors := console_errors s2 @ [''Error with registration:'']\<rparr>))
            \<lparr>registering := False\<rparr>)"
proof -
  obtain v s1 where c: "checkProfileComplete (Some u) profile_reply s = (v, s1)"
    by (cases "checkProfileComplete (Some u) profile_reply s")
  have "truthy v"
    using checkProfileComplete_truthy [of "Some u" profile_reply s] assms c by simp
  moreover have "s1 = s\<lparr>requests := requests s @ [SelectProfile (user_id u)]\<rparr>"
    using checkProfileComplete_state [of u profile_reply s] c by simp
  ultimately show ?thesis
    by (simp add: handleRegister_card_def c)
qed

lemma handleRegister_detail_complete:
  assumes "complete_row profile_reply"
  shows "handleRegister_detail (Some u) eid event profile_reply reply q s =
     (case detail_try eid event u reply q
             (s\<lparr>requests := requests s @ [SelectProfile (user_id u)], registering := True\<rparr>) of
        Completed s2 \<Rightarrow> s2\<lparr>registering := False\<rparr>
      | Thrown s2 \<Rightarrow>
          (addToast
             \<lparr>toast_type = ''error'', toast_title = ''Error'',
              toast_message = ''Failed to process registration'', toast_duration = None\<rparr>
             (s2\<lparr>console_errors := console_errors s2 @ [''Error with registration:'']\<rparr>))
            \<lparr>registering := False\<rparr>)"
proof -
  obtain v s1 where c: "checkProfileComplete (Some u) profile_reply s = (v, s1)"
    by (cases "checkProfileComplete (Some u) profile_reply s")
  have "truthy v"
    using checkProfileComplete_truthy [of "Some u" profile_reply s] assms c by simp
  moreover have "s1 = s\<lparr>requests := requests s @ [SelectProfile (user_id u)]\<rparr>"
    using checkProfileComplete_state [of u profile_reply s] c by simp
  ultimately show ?thesis
    by (simp add: handleRegister_detail_def c)
qed

lemma handleRegister_card_registered_ok:
  assumes "complete_row profile_reply" and "\<not> request_failed reply" and "isRegistered s"
  shows "handleRegister_card (Some u) ev profile_reply reply s =
           s\<lparr>requests := requests s @
                  [SelectProfile (user_id u), DeleteRegistration (event_id ev) (user_id u)],
              registrations := remote_delete (event_id ev) (user_id u) (registrations s),
              isRegistered := False,
              toasts := toasts s @
                  [\<lparr>toast_type = ''success'', toast_title = ''Unregistered'',
                    toast_message = ''You have been unregistered from '' @ event_title ev,
                    toast_duration = Some 3000\<rparr>],
              registering := False\<rparr>"
  using assms(2,3)
  by (simp add: handleRegister_card_complete [OF assms(1)] card_try_def addToast_def)

lemma handleRegister_card_unregistered_ok:
  assumes "complete_row profile_reply" and "\<not> request_failed reply" and "\<not> isRegistered s"
  shows "handleRegister_card (Some u) ev profile_reply reply s =
           s\<lparr>requests := requests s @
                  [SelectProfile (user_id u), InsertRegistration (event_id ev) (user_id u)],
              registrations := remote_insert (event_id ev) (user_id u) (registrations s),
              isRegistered := True,
              toasts := toasts s @
                  [\<lparr>toast_type = ''success'', toast_title = ''Registration Successful!'',
                    toast_message = ''You have been registered for '' @ event_title ev,
                    toast_duration = Some 3000\<rparr>],
              registering := False\<rparr>"
  using assms(2,3)
  by (simp add: handleRegister_card_complete [OF assms(1)] card_try_def addToast_def)

lemma handleRegister_detail_registered_ok:
  assumes "complete_row profile_reply" and "\<not> request_failed reply" and "isRegistered s"
  shows "handleRegister_detail (Some u) eid event profile_reply reply q s =
           s\<lparr>requests := requests s @
                  [SelectProfile (user_id u), DeleteRegistration eid (user_id u)],
              registrations := remote_delete eid (user_id u) (registrations s),
              isRegistered := False,
              toasts := toasts s @
                  [\<lparr>toast_type = ''success'', toast_title = ''Unregistered'',
                    toast_message = ''You have been unregistered from this event'',
                    toast_duration = None\<rparr>],
              registering := False\<rparr>"
  using assms(2,3)
  by (simp add: handleRegister_detail_complete [OF assms(1)] detail_try_def addToast_def)

lemma handleRegister_detail_unregistered:
  assumes "complete_row profile_reply" and "\<not> isRegistered s"
  shows "handleRegister_detail (Some u) eid event profile_reply reply q s =
           (generatePaymentQR event q
              (s\<lparr>requests := requests s @ [SelectProfile (user_id u)], registering := True\<rparr>))
           \<lparr>registering := False\<rparr>"
  using assms(2)
  by (simp add: handleRegister_detail_complete [OF assms(1)] detail_try_def)

lemma generatePaymentQR_keeps:
  "registrations (generatePaymentQR event q s) = registrations s"
  "isRegistered (generatePaymentQR event q s) = isRegistered s"
  "requests (generatePaymentQR event q s) = requests s"
  by (simp_all add: generatePaymentQR_def addToast_def Let_def split: option.splits)

lemma confirmPayment_ok:
  assumes "\<not> request_failed reply"
  shows "confirmPayment (Some u) (Some eid) reply s =
           s\<lparr>requests := requests s @ [InsertRegistration eid (user_id u)],
              registrations := remote_insert eid (user_id u) (registrations s),
              isRegistered := True, showPaymentQR := False,
              toasts := toasts s @
                  [\<lparr>toast_type = ''success'', toast_title = ''Registration Successful!'',
                    toast_message = ''You have been registered for this event'',
                    toast_duration = None\<rparr>]\<rparr>"
  using assms by (simp add: confirmPayment_def confirm_try_def addToast_def)

lemma handleRegister_detail_shows_qr:
  assumes "complete_row profile_reply" and "\<not> isRegistered s"
      and "q (''upi://pay?pa=campusevents@upi&pn=Campus Events&am=100&cu=INR&tn=Payment for ''
              @ event_title evd) = Some qr"
  shows "handleRegister_detail (Some u) eid (Some evd) profile_reply reply q s =
           s\<lparr>requests := requests s @ [SelectProfile (user_id u)],
              paymentQR := qr, showPaymentQR := True, registering := False\<rparr>"
  using assms(3)
  by (simp add: handleRegister_detail_unregistered [OF assms(1,2)] generatePaymentQR_def)

lemma page_register_registered:
  assumes "isRegistered s"
  shows "page_register user eid event profile_reply reply q s =
           handleRegister_detail user eid event profile_reply reply q s"
  using assms by (simp add: page_register_def)

lemma page_register_unregistered_ok:
  assumes "complete_row profile_reply" and "\<not> request_failed reply" and "\<not> isRegistered s"
      and "q (''upi://pay?pa=campusevents@upi&pn=Campus Events&am=100&cu=INR&tn=Payment for ''
              @ event_title evd) = Some qr"
  shows "page_register (Some u) eid (Some evd) profile_reply reply q s =
           s\<lparr>requests := requests s @
                  [SelectProfile (user_id u), InsertRegistration eid (user_id u)],
              paymentQR := qr,
              registrations := remote_insert eid (user_id u) (registrations s),
              isRegistered := True, showPaymentQR := False,
              toasts := toasts s @
                  [\<lparr>toast_type = ''success'', toast_title = ''Registration Successful!'',
                    toast_message = ''You have been registered for this event'',
                    toast_duration = None\<rparr>],
              registering := False\<rparr>"
  using assms(3)
  by (simp add: page_register_def handleRegister_detail_shows_qr [where q = q, OF assms(1,3,4)]
        confirmPayment_ok [OF assms(2)])

lemma checkRegistration_agrees:
  assumes "(d \<noteq> None) = row_present eid (user_id u) s"
  shows "isRegistered (checkRegistration (Some u) eid (Response d None) s) =
           row_present eid (user_id u) (checkRegistration (Some u) eid (Response d None) s)"
  using assms by (simp add: checkRegistration_def row_present_def Let_def)

lemma row_present_remote_delete:
  "\<not> list_ex (\<lambda>row. fst row = eid \<and> snd row = uid) (remote_delete eid uid rows)"
  by (simp add: remote_delete_def list_ex_iff)

lemma row_present_remote_insert:
  "list_ex (\<lambda>row. fst row = eid \<and> snd row = uid) (remote_insert eid uid rows)"
  by (simp add: remote_insert_def list_ex_iff)

lemma remote_delete_absent:
  "\<not> list_ex (\<lambda>row. fst row = eid \<and> snd row = uid) rows \<Longrightarrow>
     remote_delete eid uid rows = rows"
  by (simp add: remote_delete_def list_ex_iff filter_id_conv)

lemma remote_delete_remote_insert:
  "\<not> list_ex (\<lambda>row. fst row = eid \<and> snd row = uid) rows \<Longrightarrow>
     remote_delete eid uid (remote_insert eid uid rows) = rows"
  by (simp add: remote_delete_def remote_insert_def list_ex_iff filter_id_conv)


subsection \<open>Registering without a signed-in user\<close>

text \<open>
  C7. A register call with no authenticated user, on the event card or on the event
  page, ends at once: the only change is that one notification titled
  "Login Required" is emitted. No request is sent to the remote store, the rows of
  \<open>registrations\<close> are as before (nothing inserted, nothing deleted), and the
  component's registration state is as before.
\<close>

theorem register_without_user:
  "handleRegister_card None ev profile_reply reply s =
     s\<lparr>toasts := toasts s @ [login_required_toast]\<rparr>
   \<and> handleRegister_detail None eid event profile_reply reply q s =
     s\<lparr>toasts := toasts s @ [login_required_toast]\<rparr>
   \<and> toast_title login_required_toast = ''Login Required''
   \<and> requests (handleRegister_card None ev profile_reply reply s) = requests s
   \<and> registrations (handleRegister_card None ev profile_reply reply s) = registrations s
   \<and> isRegistered (handleRegister_card None ev profile_reply reply s) = isRegistered s
   \<and> requests (handleRegister_detail None eid event profile_reply reply q s) = requests s
   \<and> registrations (handleRegister_detail None eid event profile_reply reply q s) =
       registrations s
   \<and> isRegistered (handleRegister_detail None eid event profile_reply reply q s) =
       isRegistered s"
  by (simp add: handleRegister_card_def handleRegister_detail_def addToast_def
        login_required_toast_def)

theorem register_without_user_witness:
  "toasts
     (handleRegister_card None
        \<lparr>event_id = ''E1'', event_title = ''CTF'', event_image_url = None,
          event_venue = None, event_schedule = None\<rparr>
        Throws (Response None None)
        \<lparr>isRegistered = False, registering = False, showPaymentQR = False,
          paymentQR = [], toasts = [], console_errors = [], requests = [],
          registrations = [(''E1'', ''U1'')]\<rparr>)
     = [login_required_toast]
   \<and> registrations
     (handleRegister_card None
        \<lparr>event_id = ''E1'', event_title = ''CTF'', event_image_url = None,
          event_venue = None, event_schedule = None\<rparr>
        Throws (Response None None)
        \<lparr>isRegistered = False, registering = False, showPaymentQR = False,
          paymentQR = [], toasts = [], console_errors = [], requests = [],
          registrations = [(''E1'', ''U1'')]\<rparr>)
     = [(''E1'', ''U1'')]"
proof -
  let ?ev = "\<lparr>event_id = ''E1'', event_title = ''CTF'', event_image_url = None,
              event_venue = None, event_schedule = None\<rparr>"
  let ?s = "\<lparr>isRegistered = False, registering = False, showPaymentQR = False,
             paymentQR = [], toasts = [], console_errors = [], requests = [],
             registrations = [(''E1'', ''U1'')]\<rparr>"
  note call = register_without_user [of ?ev Throws "Response None None" ?s, THEN conjunct1]
  have "toasts (handleRegister_card None ?ev Throws (Response None None) ?s) =
          [login_required_toast]"
    by (simp add: call)
  moreover have "registrations (handleRegister_card None ?ev Throws (Response None None) ?s) =
          [(''E1'', ''U1'')]"
    by (simp add: call)
  ultimately show ?thesis by simp
qed


subsection \<open>The profile check\<close>

text \<open>
  C8. \<open>checkProfileComplete\<close> yields a truthy value exactly when there is a signed-in
  user, the request for the profile row was answered with a row and without an error,
  and the four fields name, phone, roll number and branch are present and non-empty:
  it yields a falsy value when the request throws, returns an error, or returns no
  row. A register call of a signed-in user for whom the value is falsy emits exactly
  one notification titled "Profile Incomplete"; the only request it has sent is the
  one for the profile row, and the rows of \<open>registrations\<close> and the component's
  registration state are as before.
\<close>

theorem profile_check:
  "(truthy (fst (checkProfileComplete (Some u) (Response (Some p) None) s)) \<longleftrightarrow>
      profile_complete p)
   \<and> \<not> truthy (fst (checkProfileComplete user Throws s))
   \<and> \<not> truthy (fst (checkProfileComplete user (Response d (Some err)) s))
   \<and> \<not> truthy (fst (checkProfileComplete user (Response None e) s))
   \<and> \<not> truthy (fst (checkProfileComplete None profile_reply s))
   \<and> (\<not> truthy (fst (checkProfileComplete (Some u) profile_reply s)) \<longrightarrow>
        handleRegister_card (Some u) ev profile_reply reply s =
          s\<lparr>requests := requests s @ [SelectProfile (user_id u)],
             toasts := toasts s @ [profile_incomplete_toast]\<rparr>
        \<and> handleRegister_detail (Some u) eid event profile_reply reply q s =
          s\<lparr>requests := requests s @ [SelectProfile (user_id u)],
             toasts := toasts s @ [profile_incomplete_toast]\<rparr>
        \<and> toast_title profile_incomplete_toast = ''Profile Incomplete''
        \<and> registrations (handleRegister_card (Some u) ev profile_reply reply s) =
            registrations s
        \<and> isRegistered (handleRegister_card (Some u) ev profile_reply reply s) =
            isRegistered s
        \<and> registrations (handleRegister_detail (Some u) eid event profile_reply reply q s) =
            registrations s
        \<and> isRegistered (handleRegister_detail (Some u) eid event profile_reply reply q s) =
            isRegistered s)"
proof (intro conjI impI)
  show "truthy (fst (checkProfileComplete (Some u) (Response (Some p) None) s)) \<longleftrightarrow>
          profile_complete p"
    by (simp add: checkProfileComplete_truthy)
  show "\<not> truthy (fst (checkProfileComplete user Throws s))"
    by (simp add: checkProfileComplete_truthy)
  show "\<not> truthy (fst (checkProfileComplete user (Response d (Some err)) s))"
    by (cases d) (simp_all add: checkProfileComplete_truthy)
  show "\<not> truthy (fst (checkProfileComplete user (Response None e) s))"
    by (simp add: checkProfileComplete_truthy)
  show "\<not> truthy (fst (checkProfileComplete None profile_reply s))"
    by (simp add: checkProfileComplete_truthy)
next
  assume "\<not> truthy (fst (checkProfileComplete (Some u) profile_reply s))"
  then have incomplete: "\<not> complete_row profile_reply"
    by (simp add: checkProfileComplete_truthy)
  note card = handleRegister_card_incomplete [OF incomplete, of u ev reply s]
  note detail = handleRegister_detail_incomplete [OF incomplete, of u eid event reply q s]
  show "handleRegister_card (Some u) ev profile_reply reply s =
          s\<lparr>requests := requests s @ [SelectProfile (user_id u)],
             toasts := toasts s @ [profile_incomplete_toast]\<rparr>"
    by (rule card)
  show "handleRegister_detail (Some u) eid event profile_reply reply q s =
          s\<lparr>requests := requests s @ [SelectProfile (user_id u)],
             toasts := toasts s @ [profile_incomplete_toast]\<rparr>"
    by (rule detail)
  show "toast_title profile_incomplete_toast = ''Profile Incomplete''"
    by (simp add: profile_incomplete_toast_def)
  show "registrations (handleRegister_card (Some u) ev profile_reply reply s) = registrations s"
    by (simp add: card)
  show "isRegistered (handleRegister_card (Some u) ev profile_reply reply s) = isRegistered s"
    by (simp add: card)
  show "registrations (handleRegister_detail (Some u) eid event profile_reply reply q s) =
          registrations s"
    by (simp add: detail)
  show "isRegistered (handleRegister_detail (Some u) eid event profile_reply reply q s) =
          isRegistered s"
    by (simp add: detail)
qed

theorem profile_check_witness:
  "\<not> truthy (fst (checkProfileComplete (Some \<lparr>user_id = ''U1''\<rparr>)
        (Response (Some \<lparr>name = Some ''Asha'', phone = Some ''9999999999'',
                         rollno = Some [], branch = Some ''CSE''\<rparr>) None)
        \<lparr>isRegistered = False, registering = False, showPaymentQR = False,
          paymentQR = [], toasts = [], console_errors = [], requests = [],
          registrations = []\<rparr>))
   \<and> toasts
       (handleRegister_card (Some \<lparr>user_id = ''U1''\<rparr>)
          \<lparr>event_id = ''E1'', event_title = ''CTF'', event_image_url = None,
            event_venue = None, event_schedule = None\<rparr>
          (Response (Some \<lparr>name = Some ''Asha'', phone = Some ''9999999999'',
                           rollno = Some [], branch = Some ''CSE''\<rparr>) None)
          (Response None None)
          \<lparr>isRegistered = False, registering = False, showPaymentQR = False,
            paymentQR = [], toasts = [], console_errors = [], requests = [],
            registrations = []\<rparr>)
       = [profile_incomplete_toast]
   \<and> registrations
       (handleRegister_card (Some \<lparr>user_id = ''U1''\<rparr>)
          \<lparr>event_id = ''E1'', event_title = ''CTF'', event_image_url = None,
            event_venue = None, event_schedule = None\<rparr>
          (Response (Some \<lparr>name = Some ''Asha'', phone = Some ''9999999999'',
                           rollno = Some [], branch = Some ''CSE''\<rparr>) None)
          (Response None None)
          \<lparr>isRegistered = False, registering = False, showPaymentQR = False,
            paymentQR = [], toasts = [], console_errors = [], requests = [],
            registrations = []\<rparr>)
       = []"
proof -
  let ?u = "\<lparr>user_id = ''U1''\<rparr>"
  let ?ev = "\<lparr>event_id = ''E1'', event_title = ''CTF'', event_image_url = None,
              event_venue = None, event_schedule = None\<rparr>"
  let ?p = "\<lparr>name = Some ''Asha'', phone = Some ''9999999999'',
             rollno = Some [], branch = Some ''CSE''\<rparr>"
  let ?s = "\<lparr>isRegistered = False, registering = False, showPaymentQR = False,
             paymentQR = [], toasts = [], console_errors = [], requests = [],
             registrations = []\<rparr>"
  have incomplete: "\<not> profile_complete ?p"
    by (simp add: profile_complete_def)
  note checked = profile_check [of ?u ?p ?s]
  have falsy: "\<not> truthy (fst (checkProfileComplete (Some ?u) (Response (Some ?p) None) ?s))"
    using checked [THEN conjunct1] incomplete by simp
  note call =
    profile_check [of ?u ?p ?s _ _ _ _ "Response (Some ?p) None" ?ev "Response None None",
      THEN conjunct2, THEN conjunct2, THEN conjunct2, THEN conjunct2, THEN conjunct2,
      THEN mp, OF falsy, THEN conjunct1]
  have "toasts (handleRegister_card (Some ?u) ?ev (Response (Some ?p) None)
                  (Response None None) ?s) = [profile_incomplete_toast]"
    by (simp add: call)
  moreover have "registrations (handleRegister_card (Some ?u) ?ev (Response (Some ?p) None)
                  (Response None None) ?s) = []"
    by (simp add: call)
  ultimately show ?thesis using falsy by simp
qed

subsection \<open>A failing request to the remote store\<close>

text \<open>
  C9. When the request on \<open>registrations\<close> fails (an error comes back or the promise
  rejects) in a register call or in the payment confirmation of a signed-in user with
  a complete profile, the handler catches it: it writes one line with \<open>console.error\<close>,
  emits exactly one notification of type error, and ends normally. The failing request
  is the only one sent to \<open>registrations\<close> (no retry), and the component's
  \<open>isRegistered\<close> state and the rows are as before; the busy flag is cleared.
\<close>

theorem remote_failure_is_caught:
  assumes failed: "request_failed reply"
      and complete: "truthy (fst (checkProfileComplete (Some u) profile_reply s))"
  shows "handleRegister_card (Some u) ev profile_reply reply s =
           s\<lparr>requests := requests s @
                  [SelectProfile (user_id u),
                   (if isRegistered s then DeleteRegistration (event_id ev) (user_id u)
                    else InsertRegistration (event_id ev) (user_id u))],
              console_errors := console_errors s @ [''Error with registration:''],
              toasts := toasts s @
                  [\<lparr>toast_type = ''error'', toast_title = ''Registration Failed'',
                    toast_message = ''Please try again later'',
                    toast_duration = Some 4000\<rparr>],
              registering := False\<rparr>
     \<and> isRegistered (handleRegister_card (Some u) ev profile_reply reply s) = isRegistered s
     \<and> registrations (handleRegister_card (Some u) ev profile_reply reply s) = registrations s
     \<and> (isRegistered s \<longrightarrow>
          handleRegister_detail (Some u) eid event profile_reply reply q s =
            s\<lparr>requests := requests s @
                   [SelectProfile (user_id u), DeleteRegistration eid (user_id u)],
               console_errors := console_errors s @ [''Error with registration:''],
               toasts := toasts s @
                   [\<lparr>toast_type = ''error'', toast_title = ''Error'',
                     toast_message = ''Failed to process registration'',
                     toast_duration = None\<rparr>],
               registering := False\<rparr>)
     \<and> isRegistered (handleRegister_detail (Some u) eid event profile_reply reply q s) =
         isRegistered s
     \<and> registrations (handleRegister_detail (Some u) eid event profile_reply reply q s) =
         registrations s
     \<and> confirmPayment (Some u) (Some eid) reply s =
           s\<lparr>requests := requests s @ [InsertRegistration eid (user_id u)],
              console_errors := console_errors s @ [''Error confirming registration:''],
              toasts := toasts s @
                  [\<lparr>toast_type = ''error'', toast_title = ''Error'',
                    toast_message = ''Failed to confirm registration'',
                    toast_duration = None\<rparr>]\<rparr>
     \<and> isRegistered (confirmPayment (Some u) (Some eid) reply s) = isRegistered s
     \<and> showPaymentQR (confirmPayment (Some u) (Some eid) reply s) = showPaymentQR s
     \<and> registrations (confirmPayment (Some u) (Some eid) reply s) = registrations s"
proof -
  have row: "complete_row profile_reply"
    using complete by (simp add: checkProfileComplete_truthy)
  have card: "handleRegister_card (Some u) ev profile_reply reply s =
           s\<lparr>requests := requests s @
                  [SelectProfile (user_id u),
                   (if isRegistered s then DeleteRegistration (event_id ev) (user_id u)
                    else InsertRegistration (event_id ev) (user_id u))],
              console_errors := console_errors s @ [''Error with registration:''],
              toasts := toasts s @
                  [\<lparr>toast_type = ''error'', toast_title = ''Registration Failed'',
                    toast_message = ''Please try again later'',
                    toast_duration = Some 4000\<rparr>],
              registering := False\<rparr>"
    using failed
    by (simp add: handleRegister_card_complete [OF row] card_try_def addToast_def)
  have detail_reg: "handleRegister_detail (Some u) eid event profile_reply reply q s =
            s\<lparr>requests := requests s @
                   [SelectProfile (user_id u), DeleteRegistration eid (user_id u)],
               console_errors := console_errors s @ [''Error with registration:''],
               toasts := toasts s @
                   [\<lparr>toast_type = ''error'', toast_title = ''Error'',
                     toast_message = ''Failed to process registration'',
                     toast_duration = None\<rparr>],
               registering := False\<rparr>" if "isRegistered s"
    using failed that
    by (simp add: handleRegister_detail_complete [OF row] detail_try_def addToast_def)
  have detail_flag:
    "isRegistered (handleRegister_detail (Some u) eid event profile_reply reply q s) =
       isRegistered s"
    using failed
    by (simp add: handleRegister_detail_complete [OF row] detail_try_def addToast_def
          generatePaymentQR_def Let_def split: option.splits)
  have detail_rows:
    "registrations (handleRegister_detail (Some u) eid event profile_reply reply q s) =
       registrations s"
    using failed
    by (simp add: handleRegister_detail_complete [OF row] detail_try_def addToast_def
          generatePaymentQR_def Let_def split: option.splits)
  have confirm: "confirmPayment (Some u) (Some eid) reply s =
           s\<lparr>requests := requests s @ [InsertRegistration eid (user_id u)],
              console_errors := console_errors s @ [''Error confirming registration:''],
              toasts := toasts s @
                  [\<lparr>toast_type = ''error'', toast_title = ''Error'',
                    toast_message = ''Failed to confirm registration'',
                    toast_duration = None\<rparr>]\<rparr>"
    using failed by (simp add: confirmPayment_def confirm_try_def addToast_def)
  show ?thesis
    using detail_reg detail_flag detail_rows
    by (simp add: card confirm)
qed

theorem remote_failure_is_caught_witness:
  "request_failed (Response None (Some ''network error'') :: unit response)
   \<and> handleRegister_card (Some \<lparr>user_id = ''U1''\<rparr>)
       \<lparr>event_id = ''E1'', event_title = ''CTF'', event_image_url = None,
         event_venue = None, event_schedule = None\<rparr>
       (Response (Some \<lparr>name = Some ''Asha'', phone = Some ''9999999999'',
                        rollno = Some ''21CS001'', branch = Some ''CSE''\<rparr>) None)
       (Response None (Some ''network error''))
       \<lparr>isRegistered = True, registering = False, showPaymentQR = False,
         paymentQR = [], toasts = [], console_errors = [], requests = [],
         registrations = [(''E1'', ''U1'')]\<rparr>
     = \<lparr>isRegistered = True, registering = False, showPaymentQR = False,
         paymentQR = [],
         toasts = [\<lparr>toast_type = ''error'', toast_title = ''Registration Failed'',
                    toast_message = ''Please try again later'',
                    toast_duration = Some 4000\<rparr>],
         console_errors = [''Error with registration:''],
         requests = [SelectProfile ''U1'', DeleteRegistration ''E1'' ''U1''],
         registrations = [(''E1'', ''U1'')]\<rparr>"
proof -
  let ?u = "\<lparr>user_id = ''U1''\<rparr>"
  let ?ev = "\<lparr>event_id = ''E1'', event_title = ''CTF'', event_image_url = None,
              event_venue = None, event_schedule = None\<rparr>"
  let ?pr = "Response (Some \<lparr>name = Some ''Asha'', phone = Some ''9999999999'',
                              rollno = Some ''21CS001'', branch = Some ''CSE''\<rparr>) None"
  let ?r = "Response None (Some ''network error'') :: unit response"
  let ?s = "\<lparr>isRegistered = True, registering = False, showPaymentQR = False,
             paymentQR = [], toasts = [], console_errors = [], requests = [],
             registrations = [(''E1'', ''U1'')]\<rparr>"
  have failed: "request_failed ?r"
    by simp
  have complete: "truthy (fst (checkProfileComplete (Some ?u) ?pr ?s))"
    by (simp add: checkProfileComplete_def js_and_def)
  note caught = remote_failure_is_caught [OF failed complete, of ?ev, THEN conjunct1]
  show ?thesis
    using failed by (simp add: caught)
qed

subsection \<open>Registration as a toggle\<close>

text \<open>
  Against C6 as it is stated (a toggle on the row for every signed-in user with a
  complete profile). The handlers choose between deleting and inserting by the
  component's \<open>isRegistered\<close> state, which \<open>checkRegistration\<close> sets when the component
  mounts, and not by a query made at the time of the call. With a row in the remote
  table and the state still at its initial value \<open>false\<close> (here after a
  \<open>checkRegistration\<close> whose request failed), the card's handler sends an insert
  instead of a delete: the row is still there afterwards, twice when the remote store
  accepts the insert and once when it refuses it.
\<close>

theorem register_toggle_counterexample:
  "checkRegistration (Some \<lparr>user_id = ''U1''\<rparr>) ''E1'' Throws
     \<lparr>isRegistered = False, registering = False, showPaymentQR = False,
       paymentQR = [], toasts = [], console_errors = [], requests = [],
       registrations = [(''E1'', ''U1'')]\<rparr>
     = \<lparr>isRegistered = False, registering = False, showPaymentQR = False,
         paymentQR = [], toasts = [],
         console_errors = [''Error checking registration:''],
         requests = [SelectRegistration ''E1'' ''U1''],
         registrations = [(''E1'', ''U1'')]\<rparr>
   \<and> row_present ''E1'' ''U1''
       \<lparr>isRegistered = False, registering = False, showPaymentQR = False,
         paymentQR = [], toasts = [],
         console_errors = [''Error checking registration:''],
         requests = [SelectRegistration ''E1'' ''U1''],
         registrations = [(''E1'', ''U1'')]\<rparr>
   \<and> registrations
       (handleRegister_card (Some \<lparr>user_id = ''U1''\<rparr>)
          \<lparr>event_id = ''E1'', event_title = ''CTF'', event_image_url = None,
            event_venue = None, event_schedule = None\<rparr>
          (Response (Some \<lparr>name = Some ''Asha'', phone = Some ''9999999999'',
                           rollno = Some ''21CS001'', branch = Some ''CSE''\<rparr>) None)
          (Response None None)
          \<lparr>isRegistered = False, registering = False, showPaymentQR = False,
            paymentQR = [], toasts = [],
            console_errors = [''Error checking registration:''],
            requests = [SelectRegistration ''E1'' ''U1''],
            registrations = [(''E1'', ''U1'')]\<rparr>)
       = [(''E1'', ''U1''), (''E1'', ''U1'')]
   \<and> registrations
       (handleRegister_card (Some \<lparr>user_id = ''U1''\<rparr>)
          \<lparr>event_id = ''E1'', event_title = ''CTF'', event_image_url = None,
            event_venue = None, event_schedule = None\<rparr>
          (Response (Some \<lparr>name = Some ''Asha'', phone = Some ''9999999999'',
                           rollno = Some ''21CS001'', branch = Some ''CSE''\<rparr>) None)
          (Response None (Some ''duplicate key''))
          \<lparr>isRegistered = False, registering = False, showPaymentQR = False,
            paymentQR = [], toasts = [],
            console_errors = [''Error checking registration:''],
            requests = [SelectRegistration ''E1'' ''U1''],
            registrations = [(''E1'', ''U1'')]\<rparr>)
       = [(''E1'', ''U1'')]"
  by (simp add: checkRegistration_def row_present_def handleRegister_card_def
        checkProfileComplete_def js_and_def card_try_def addToast_def remote_insert_def
        Let_def)

text \<open>
  C6, as the code has it. For a signed-in user with a complete profile, when the
  request to the remote store succeeds and the component's \<open>isRegistered\<close> state agrees
  with the presence of the (event id, user id) row: the card's \<open>handleRegister\<close> deletes
  the row when it is present and inserts exactly one row when it is absent, sets
  \<open>isRegistered\<close> accordingly and keeps the agreement, so that three consecutive calls
  from no row end registered with the one row. On the event page \<open>handleRegister\<close>
  deletes the row when it is present; when it is absent it inserts nothing, and the
  \<open>confirmPayment\<close> that follows inserts exactly one row and sets \<open>isRegistered\<close>.
  With the event loaded and the QR image generated, the page's \<open>handleRegister\<close> of an
  unregistered user does nothing but record the profile request, store the QR image
  and show it; the page's register operation (\<open>handleRegister\<close>, completed by
  \<open>confirmPayment\<close> when the QR is shown) is then a toggle as well: it deletes a present
  row, inserts exactly one row when there is none and hides the QR, keeps the
  agreement, and three consecutive operations from no row end registered with the one
  row.
\<close>

theorem register_toggles_when_state_agrees:
  assumes complete: "truthy (fst (checkProfileComplete (Some u) profile_reply s))"
      and ok: "\<not> request_failed reply"
      and agree: "isRegistered s = row_present (event_id ev) (user_id u) s"
  shows "(row_present (event_id ev) (user_id u) s \<longrightarrow>
            registrations (handleRegister_card (Some u) ev profile_reply reply s) =
              remote_delete (event_id ev) (user_id u) (registrations s)
          \<and> \<not> row_present (event_id ev) (user_id u)
                (handleRegister_card (Some u) ev profile_reply reply s)
          \<and> \<not> isRegistered (handleRegister_card (Some u) ev profile_reply reply s))
     \<and> (\<not> row_present (event_id ev) (user_id u) s \<longrightarrow>
            registrations (handleRegister_card (Some u) ev profile_reply reply s) =
              registrations s @ [(event_id ev, user_id u)]
          \<and> isRegistered (handleRegister_card (Some u) ev profile_reply reply s))
     \<and> isRegistered (handleRegister_card (Some u) ev profile_reply reply s) =
         row_present (event_id ev) (user_id u)
           (handleRegister_card (Some u) ev profile_reply reply s)
     \<and> (\<not> row_present (event_id ev) (user_id u) s \<longrightarrow>
            registrations
              (handleRegister_card (Some u) ev profile_reply reply
                 (handleRegister_card (Some u) ev profile_reply reply
                    (handleRegister_card (Some u) ev profile_reply reply s))) =
              registrations s @ [(event_id ev, user_id u)]
          \<and> isRegistered
              (handleRegister_card (Some u) ev profile_reply reply
                 (handleRegister_card (Some u) ev profile_reply reply
                    (handleRegister_card (Some u) ev profile_reply reply s))))
     \<and> (row_present (event_id ev) (user_id u) s \<longrightarrow>
            \<not> row_present (event_id ev) (user_id u)
                (handleRegister_detail (Some u) (event_id ev) event profile_reply reply q s)
          \<and> \<not> isRegistered
                (handleRegister_detail (Some u) (event_id ev) event profile_reply reply q s))
     \<and> (\<not> row_present (event_id ev) (user_id u) s \<longrightarrow>
            registrations
              (handleRegister_detail (Some u) (event_id ev) event profile_reply reply q s) =
              registrations s
          \<and> \<not> isRegistered
                (handleRegister_detail (Some u) (event_id ev) event profile_reply reply q s)
          \<and> registrations
              (confirmPayment (Some u) (Some (event_id ev)) reply
                 (handleRegister_detail (Some u) (event_id ev) event profile_reply reply q s)) =
              registrations s @ [(event_id ev, user_id u)]
          \<and> isRegistered
              (confirmPayment (Some u) (Some (event_id ev)) reply
                 (handleRegister_detail (Some u) (event_id ev) event profile_reply reply q s)))
     \<and> (q (''upi://pay?pa=campusevents@upi&pn=Campus Events&am=100&cu=INR&tn=Payment for ''
              @ event_title evd) = Some qr \<longrightarrow>
          (\<not> row_present (event_id ev) (user_id u) s \<longrightarrow>
             handleRegister_detail (Some u) (event_id ev) (Some evd) profile_reply reply q s =
               s\<lparr>requests := requests s @ [SelectProfile (user_id u)],
                  paymentQR := qr, showPaymentQR := True, registering := False\<rparr>)
        \<and> (row_present (event_id ev) (user_id u) s \<longrightarrow>
             registrations
               (page_register (Some u) (event_id ev) (Some evd) profile_reply reply q s) =
               remote_delete (event_id ev) (user_id u) (registrations s)
           \<and> \<not> row_present (event_id ev) (user_id u)
                 (page_register (Some u) (event_id ev) (Some evd) profile_reply reply q s)
           \<and> \<not> isRegistered
                 (page_register (Some u) (event_id ev) (Some evd) profile_reply reply q s))
        \<and> (\<not> row_present (event_id ev) (user_id u) s \<longrightarrow>
             registrations
               (page_register (Some u) (event_id ev) (Some evd) profile_reply reply q s) =
               registrations s @ [(event_id ev, user_id u)]
           \<and> isRegistered
               (page_register (Some u) (event_id ev) (Some evd) profile_reply reply q s)
           \<and> \<not> showPaymentQR
                 (page_register (Some u) (event_id ev) (Some evd) profile_reply reply q s))
        \<and> isRegistered
             (page_register (Some u) (event_id ev) (Some evd) profile_reply reply q s) =
           row_present (event_id ev) (user_id u)
             (page_register (Some u) (event_id ev) (Some evd) profile_reply reply q s)
        \<and> (\<not> row_present (event_id ev) (user_id u) s \<longrightarrow>
             registrations
               (page_register (Some u) (event_id ev) (Some evd) profile_reply reply q
                  (page_register (Some u) (event_id ev) (Some evd) profile_reply reply q
                     (page_register (Some u) (event_id ev) (Some evd) profile_reply reply q
                        s))) =
               registrations s @ [(event_id ev, user_id u)]
           \<and> isRegistered
               (page_register (Some u) (event_id ev) (Some evd) profile_reply reply q
                  (page_register (Some u) (event_id ev) (Some evd) profile_reply reply q
                     (page_register (Some u) (event_id ev) (Some evd) profile_reply reply q
                        s)))))"
proof -
  let ?e = "event_id ev" and ?uid = "user_id u"
  let ?h = "handleRegister_card (Some u) ev profile_reply reply"
  let ?d = "handleRegister_detail (Some u) (event_id ev) event profile_reply reply q"
  let ?P = "page_register (Some u) (event_id ev) (Some evd) profile_reply reply q"
  let ?url = "''upi://pay?pa=campusevents@upi&pn=Campus Events&am=100&cu=INR&tn=Payment for ''
              @ event_title evd"
  have row: "complete_row profile_reply"
    using complete by (simp add: checkProfileComplete_truthy)
  note del = handleRegister_card_registered_ok [OF row ok, of _ u ev]
  note ins = handleRegister_card_unregistered_ok [OF row ok, of _ u ev]

  have present: "registrations (?h s) = remote_delete ?e ?uid (registrations s)
      \<and> \<not> row_present ?e ?uid (?h s) \<and> \<not> isRegistered (?h s)"
    if "row_present ?e ?uid s"
  proof -
    from that agree have "isRegistered s" by simp
    then show ?thesis
      by (simp add: del row_present_def row_present_remote_delete)
  qed

  have absent: "registrations (?h s) = registrations s @ [(?e, ?uid)] \<and> isRegistered (?h s)"
    if "\<not> row_present ?e ?uid s"
  proof -
    from that agree have "\<not> isRegistered s" by simp
    then show ?thesis
      by (simp add: ins remote_insert_def)
  qed

  have kept: "isRegistered (?h s) = row_present ?e ?uid (?h s)"
  proof (cases "row_present ?e ?uid s")
    case True
    then show ?thesis using present by simp
  next
    case False
    with agree have "\<not> isRegistered s" by simp
    then show ?thesis
      by (simp add: ins row_present_def row_present_remote_insert)
  qed

  have three: "registrations (?h (?h (?h s))) = registrations s @ [(?e, ?uid)]
      \<and> isRegistered (?h (?h (?h s)))"
    if none: "\<not> row_present ?e ?uid s"
  proof -
    from none agree have s0: "\<not> isRegistered s" by simp
    have none': "\<not> list_ex (\<lambda>row. fst row = ?e \<and> snd row = ?uid) (registrations s)"
      using none by (simp add: row_present_def)
    have s1: "isRegistered (?h s)"
      and r1: "registrations (?h s) = remote_insert ?e ?uid (registrations s)"
      using s0 by (simp_all add: ins)
    have s2: "\<not> isRegistered (?h (?h s))"
      and r2: "registrations (?h (?h s)) = registrations s"
      using s1 by (simp_all add: del [of "?h s"] r1 remote_delete_remote_insert [OF none'])
    have "isRegistered (?h (?h (?h s)))"
      and "registrations (?h (?h (?h s))) = remote_insert ?e ?uid (registrations s)"
      using s2 by (simp_all add: ins [of "?h (?h s)"] r2)
    then show ?thesis by (simp add: remote_insert_def)
  qed

  have page_present: "\<not> row_present ?e ?uid (?d s) \<and> \<not> isRegistered (?d s)"
    if "row_present ?e ?uid s"
  proof -
    from that agree have "isRegistered s" by simp
    then show ?thesis
      by (simp add: handleRegister_detail_registered_ok [OF row ok] row_present_def
            row_present_remote_delete)
  qed

  have page_absent: "registrations (?d s) = registrations s \<and> \<not> isRegistered (?d s)
      \<and> registrations (confirmPayment (Some u) (Some ?e) reply (?d s)) =
          registrations s @ [(?e, ?uid)]
      \<and> isRegistered (confirmPayment (Some u) (Some ?e) reply (?d s))"
    if "\<not> row_present ?e ?uid s"
  proof -
    from that agree have flag: "\<not> isRegistered s" by simp
    have shown: "registrations (?d s) = registrations s" "\<not> isRegistered (?d s)"
      using flag
      by (simp_all add: handleRegister_detail_unregistered [OF row flag] generatePaymentQR_keeps)
    then show ?thesis
      by (simp add: confirmPayment_ok [OF ok] remote_insert_def)
  qed

  have with_qr:
    "(\<not> row_present ?e ?uid s \<longrightarrow>
        handleRegister_detail (Some u) ?e (Some evd) profile_reply reply q s =
          s\<lparr>requests := requests s @ [SelectProfile (user_id u)],
             paymentQR := qr, showPaymentQR := True, registering := False\<rparr>)
     \<and> (row_present ?e ?uid s \<longrightarrow>
          registrations (?P s) = remote_delete ?e ?uid (registrations s)
        \<and> \<not> row_present ?e ?uid (?P s) \<and> \<not> isRegistered (?P s))
     \<and> (\<not> row_present ?e ?uid s \<longrightarrow>
          registrations (?P s) = registrations s @ [(?e, ?uid)]
        \<and> isRegistered (?P s) \<and> \<not> showPaymentQR (?P s))
     \<and> isRegistered (?P s) = row_present ?e ?uid (?P s)
     \<and> (\<not> row_present ?e ?uid s \<longrightarrow>
          registrations (?P (?P (?P s))) = registrations s @ [(?e, ?uid)]
        \<and> isRegistered (?P (?P (?P s))))"
    if qr: "q ?url = Some qr"
  proof -
    note pdel = handleRegister_detail_registered_ok [OF row ok, of _ u ?e "Some evd" q]
    note pins = page_register_unregistered_ok [where q = q, OF row ok _ qr, of _ u ?e]
    have shows_qr: "handleRegister_detail (Some u) ?e (Some evd) profile_reply reply q s =
          s\<lparr>requests := requests s @ [SelectProfile (user_id u)],
             paymentQR := qr, showPaymentQR := True, registering := False\<rparr>"
      if "\<not> row_present ?e ?uid s"
    proof -
      from that agree have flag: "\<not> isRegistered s" by simp
      show ?thesis
        by (rule handleRegister_detail_shows_qr [where q = q, OF row flag qr])
    qed
    have p_present: "registrations (?P s) = remote_delete ?e ?uid (registrations s)
        \<and> \<not> row_present ?e ?uid (?P s) \<and> \<not> isRegistered (?P s)"
      if "row_present ?e ?uid s"
    proof -
      from that agree have flag: "isRegistered s" by simp
      show ?thesis
        by (simp add: page_register_registered [OF flag] pdel [OF flag] row_present_def
              row_present_remote_delete)
    qed
    have p_absent: "registrations (?P s) = registrations s @ [(?e, ?uid)]
        \<and> isRegistered (?P s) \<and> \<not> showPaymentQR (?P s)"
      if "\<not> row_present ?e ?uid s"
    proof -
      from that agree have flag: "\<not> isRegistered s" by simp
      show ?thesis
        by (simp add: pins [OF flag] remote_insert_def)
    qed
    have p_kept: "isRegistered (?P s) = row_present ?e ?uid (?P s)"
    proof (cases "row_present ?e ?uid s")
      case True
      then show ?thesis using p_present by simp
    next
      case False
      with agree have flag: "\<not> isRegistered s" by simp
      show ?thesis
        by (simp add: pins [OF flag] row_present_def row_present_remote_insert)
    qed
    have p_three: "registrations (?P (?P (?P s))) = registrations s @ [(?e, ?uid)]
        \<and> isRegistered (?P (?P (?P s)))"
      if none: "\<not> row_present ?e ?uid s"
    proof -
      from none agree have s0: "\<not> isRegistered s" by simp
      have none': "\<not> list_ex (\<lambda>row. fst row = ?e \<and> snd row = ?uid) (registrations s)"
        using none by (simp add: row_present_def)
      have s1: "isRegistered (?P s)"
        and r1: "registrations (?P s) = remote_insert ?e ?uid (registrations s)"
        by (simp_all add: pins [OF s0])
      have s2: "\<not> isRegistered (?P (?P s))"
        and r2: "registrations (?P (?P s)) = registrations s"
        by (simp_all add: page_register_registered [OF s1] pdel [OF s1] r1
              remote_delete_remote_insert [OF none'])
      have "isRegistered (?P (?P (?P s)))"
        and "registrations (?P (?P (?P s))) = remote_insert ?e ?uid (registrations s)"
        by (simp_all add: pins [OF s2] r2)
      then show ?thesis by (simp add: remote_insert_def)
    qed
    show ?thesis
      using shows_qr p_present p_absent p_kept p_three by blast
  qed

  show ?thesis
    using present absent kept three page_present page_absent with_qr by blast
qed

theorem register_toggles_when_state_agrees_witness:
  "registrations
     (handleRegister_card (Some \<lparr>user_id = ''U1''\<rparr>)
        \<lparr>event_id = ''E1'', event_title = ''CTF'', event_image_url = None,
          event_venue = None, event_schedule = None\<rparr>
        (Response (Some \<lparr>name = Some ''Asha'', phone = Some ''9999999999'',
                         rollno = Some ''21CS001'', branch = Some ''CSE''\<rparr>) None)
        (Response None None)
        (handleRegister_card (Some \<lparr>user_id = ''U1''\<rparr>)
           \<lparr>event_id = ''E1'', event_title = ''CTF'', event_image_url = None,
             event_venue = None, event_schedule = None\<rparr>
           (Response (Some \<lparr>name = Some ''Asha'', phone = Some ''9999999999'',
                            rollno = Some ''21CS001'', branch = Some ''CSE''\<rparr>) None)
           (Response None None)
           (handleRegister_card (Some \<lparr>user_id = ''U1''\<rparr>)
              \<lparr>event_id = ''E1'', event_title = ''CTF'', event_image_url = None,
                event_venue = None, event_schedule = None\<rparr>
              (Response (Some \<lparr>name = Some ''Asha'', phone = Some ''9999999999'',
                               rollno = Some ''21CS001'', branch = Some ''CSE''\<rparr>) None)
              (Response None None)
              \<lparr>isRegistered = False, registering = False, showPaymentQR = False,
                paymentQR = [], toasts = [], console_errors = [], requests = [],
                registrations = [(''E2'', ''U1'')]\<rparr>)))
     = [(''E2'', ''U1''), (''E1'', ''U1'')]
   \<and> registrations
     (handleRegister_card (Some \<lparr>user_id = ''U1''\<rparr>)
        \<lparr>event_id = ''E1'', event_title = ''CTF'', event_image_url = None,
          event_venue = None, event_schedule = None\<rparr>
        (Response (Some \<lparr>name = Some ''Asha'', phone = Some ''9999999999'',
                         rollno = Some ''21CS001'', branch = Some ''CSE''\<rparr>) None)
        (Response None None)
        \<lparr>isRegistered = True, registering = False, showPaymentQR = False,
          paymentQR = [], toasts = [], console_errors = [], requests = [],
          registrations = [(''E2'', ''U1''), (''E1'', ''U1'')]\<rparr>)
     = [(''E2'', ''U1'')]
   \<and> registrations
     (page_register (Some \<lparr>user_id = ''U1''\<rparr>) ''E1''
        (Some \<lparr>event_id = ''E1'', event_title = ''CTF'', event_image_url = None,
                event_venue = None, event_schedule = None\<rparr>)
        (Response (Some \<lparr>name = Some ''Asha'', phone = Some ''9999999999'',
                         rollno = Some ''21CS001'', branch = Some ''CSE''\<rparr>) None)
        (Response None None) (\<lambda>url. Some ''data:image/png;base64,'')
        (page_register (Some \<lparr>user_id = ''U1''\<rparr>) ''E1''
           (Some \<lparr>event_id = ''E1'', event_title = ''CTF'', event_image_url = None,
                   event_venue = None, event_schedule = None\<rparr>)
           (Response (Some \<lparr>name = Some ''Asha'', phone = Some ''9999999999'',
                            rollno = Some ''21CS001'', branch = Some ''CSE''\<rparr>) None)
           (Response None None) (\<lambda>url. Some ''data:image/png;base64,'')
           (page_register (Some \<lparr>user_id = ''U1''\<rparr>) ''E1''
              (Some \<lparr>event_id = ''E1'', event_title = ''CTF'', event_image_url = None,
                      event_venue = None, event_schedule = None\<rparr>)
              (Response (Some \<lparr>name = Some ''Asha'', phone = Some ''9999999999'',
                               rollno = Some ''21CS001'', branch = Some ''CSE''\<rparr>) None)
              (Response None None) (\<lambda>url. Some ''data:image/png;base64,'')
              \<lparr>isRegistered = False, registering = False, showPaymentQR = False,
                paymentQR = [], toasts = [], console_errors = [], requests = [],
                registrations = [(''E2'', ''U1'')]\<rparr>)))
     = [(''E2'', ''U1''), (''E1'', ''U1'')]"
proof -
  let ?u = "\<lparr>user_id = ''U1''\<rparr>"
  let ?ev = "\<lparr>event_id = ''E1'', event_title = ''CTF'', event_image_url = None,
              event_venue = None, event_schedule = None\<rparr>"
  let ?pr = "Response (Some \<lparr>name = Some ''Asha'', phone = Some ''9999999999'',
                              rollno = Some ''21CS001'', branch = Some ''CSE''\<rparr>) None"
  let ?r = "Response None None :: unit response"
  let ?s0 = "\<lparr>isRegistered = False, registering = False, showPaymentQR = False,
              paymentQR = [], toasts = [], console_errors = [], requests = [],
              registrations = [(''E2'', ''U1'')]\<rparr>"
  let ?s1 = "\<lparr>isRegistered = True, registering = False, showPaymentQR = False,
              paymentQR = [], toasts = [], console_errors = [], requests = [],
              registrations = [(''E2'', ''U1''), (''E1'', ''U1'')]\<rparr>"
  have ok: "\<not> request_failed ?r"
    by simp
  have complete0: "truthy (fst (checkProfileComplete (Some ?u) ?pr ?s0))"
    by (simp add: checkProfileComplete_def js_and_def)
  have complete1: "truthy (fst (checkProfileComplete (Some ?u) ?pr ?s1))"
    by (simp add: checkProfileComplete_def js_and_def)
  have absent0: "\<not> row_present (event_id ?ev) (user_id ?u) ?s0"
    by (simp add: row_present_def)
  have present1: "row_present (event_id ?ev) (user_id ?u) ?s1"
    by (simp add: row_present_def)
  have agree0: "isRegistered ?s0 = row_present (event_id ?ev) (user_id ?u) ?s0"
    using absent0 by simp
  have agree1: "isRegistered ?s1 = row_present (event_id ?ev) (user_id ?u) ?s1"
    using present1 by simp
  note three =
    register_toggles_when_state_agrees [OF complete0 ok agree0, THEN conjunct2,
      THEN conjunct2, THEN conjunct2, THEN conjunct1, THEN mp, OF absent0, THEN conjunct1]
  note deleted =
    register_toggles_when_state_agrees [OF complete1 ok agree1, THEN conjunct1,
      THEN mp, OF present1, THEN conjunct1]
  have "registrations
          (handleRegister_card (Some ?u) ?ev ?pr ?r
             (handleRegister_card (Some ?u) ?ev ?pr ?r
                (handleRegister_card (Some ?u) ?ev ?pr ?r ?s0))) =
        [(''E2'', ''U1''), (''E1'', ''U1'')]"
    using three by simp
  moreover have "registrations (handleRegister_card (Some ?u) ?ev ?pr ?r ?s1) =
        [(''E2'', ''U1'')]"
    using deleted by (simp add: remote_delete_def)
  moreover
  let ?q = "\<lambda>url :: string. Some ''data:image/png;base64,''"
  let ?P = "page_register (Some ?u) ''E1'' (Some ?ev) ?pr ?r ?q"
  have generated:
    "?q (''upi://pay?pa=campusevents@upi&pn=Campus Events&am=100&cu=INR&tn=Payment for ''
          @ event_title ?ev) = Some ''data:image/png;base64,''"
    by simp
  note page_three =
    register_toggles_when_state_agrees [OF complete0 ok agree0, where q = ?q and evd = ?ev
      and qr = "''data:image/png;base64,''",
      THEN conjunct2, THEN conjunct2, THEN conjunct2, THEN conjunct2, THEN conjunct2,
      THEN conjunct2, THEN mp, OF generated, THEN conjunct2, THEN conjunct2,
      THEN conjunct2, THEN conjunct2, THEN mp, OF absent0, THEN conjunct1]
  have "registrations (?P (?P (?P ?s0))) = [(''E2'', ''U1''), (''E1'', ''U1'')]"
    using page_three by simp
  ultimately show ?thesis by simp
qed

end
